theory Spec2Isabelle
  imports Main "HOL-Library.Word"
begin

section \<open>The iOS bridge of the ET client: \<open>et_client_main\<close>\<close>

text \<open>
  The theory embeds \<open>src/terminal/et_ios_bridge.cpp\<close>. The function talks to four
  collaborators that are not part of the file: the connection object
  (\<open>ClientConnection\<close>), the operating system (\<open>select\<close>, \<open>read\<close>, \<open>write\<close>,
  \<open>time\<close>), the protobuf codec and the host that updates the \<open>winsize\<close> struct.
  What each call of a collaborator returns is an input of the model (the records
  \<open>poll_env\<close>, \<open>attempt_env\<close>, \<open>tick_env\<close>, \<open>world\<close>); every call the function makes is
  an entry of the trace it returns (\<open>action list\<close>), in program order.
\<close>

subsection \<open>Exceptions, packets, actions\<close>

text \<open>
  The two handlers of the function tell exceptions apart by type only: line 219 catches
  \<open>std::runtime_error\<close> (and what derives from it), lines 99 and 226 catch everything.
\<close>

datatype exn = RuntimeError | OtherException

text \<open>
  Modelled from the spec: the enums \<open>EtPacketType\<close> and \<open>TerminalPacketType\<close> are declared
  in ETerminal.pb.h, which is not under src/. The message kinds the function names are kept
  symbolic and pairwise distinct; \<open>OTHER_TYPE n\<close> is any other header byte.
\<close>

datatype packet_type =
    KEEP_ALIVE | TERMINAL_BUFFER | TERMINAL_INFO
  | INITIAL_PAYLOAD | INITIAL_RESPONSE
  | OTHER_TYPE nat

text \<open>\<open>TerminalInfo\<close>: the four fields the function sets and compares (lines 205-213).\<close>

record terminal_info =
  ti_row :: int
  ti_column :: int
  ti_width :: int
  ti_height :: int

text \<open>\<open>struct winsize\<close>: four \<open>unsigned short\<close> fields.\<close>

record winsize =
  ws_row :: "16 word"
  ws_col :: "16 word"
  ws_xpixel :: "16 word"
  ws_ypixel :: "16 word"

text \<open>
  The protobuf messages the function serialises with \<open>protoToString\<close>, kept symbolic;
  \<open>EmptyString\<close> is the payload \<open>""\<close> of line 194.
\<close>

datatype payload =
    InitialPayload bool
  | TerminalBuffer string
  | TerminalInfo terminal_info
  | EmptyString

datatype packet = Packet packet_type payload

text \<open>
  The calls the function makes, as trace entries. \<open>Select fds usec\<close> is \<open>select\<close> on the
  descriptor set \<open>fds\<close> with the timeout in microseconds; \<open>SysRead fd n\<close> is
  \<open>::read(fd, buf, n)\<close>; \<open>SysWrite fd bytes rc\<close> is \<open>::write(fd, p, length bytes)\<close> on the
  bytes at \<open>p\<close>, with the value \<open>rc\<close> it returned.
\<close>

datatype action =
    AddLoggerFlag
  | Connect
  | WritePacket packet
  | GetSocketFd
  | SleepFor nat
  | Select "int set" nat
  | ReadPacket
  | IsShuttingDown
  | SysRead int nat
  | HasData
  | Read
  | SysWrite int string int
  | CloseSocketAndMaybeReconnect
  | Shutdown

subsection \<open>The connect loop (lines 49-103)\<close>

text \<open>
  A packet read during the handshake: its header, and what
  \<open>stringToProto<InitialResponse>(payload)\<close> does with its payload: it throws, or it
  returns a message of which only \<open>has_error()\<close> is read.
\<close>

record response =
  r_header :: packet_type
  r_has_error :: "exn + bool"

text \<open>
  One pass of the \<open>for\<close> loop of line 63: what \<open>getSocketFd\<close> returns, the descriptors
  \<open>select\<close> reports readable, and what \<open>readPacket\<close> does (it throws, returns false
  (\<open>None\<close>) or returns true with a packet).
\<close>

record poll_env =
  p_getSocketFd :: "exn + int"
  p_readable :: "int set"
  p_readPacket :: "exn + response option"

text \<open>One pass of the \<open>while (true)\<close> of line 50.\<close>

record attempt_env =
  a_connect :: "exn + bool"
  a_writePacket :: "exn option"
  a_polls :: "nat \<Rightarrow> poll_env"

datatype poll_result =
    NoResponse \<comment> \<open>the pass ends, \<open>fail\<close> still true\<close>
  | Responded \<comment> \<open>\<open>fail = false; break\<close>\<close>
  | PollReturn int \<comment> \<open>\<open>return 1\<close> of line 79 or 84\<close>
  | PollThrow exn

definition poll :: "poll_env \<Rightarrow> action list \<times> poll_result" where
  "poll pe =
    (case p_getSocketFd pe of
       Inl x \<Rightarrow> ([GetSocketFd], PollThrow x)
     | Inr clientFd \<Rightarrow>
         if clientFd < 0 then ([GetSocketFd, SleepFor 1], NoResponse)
         else if clientFd \<in> {clientFd} \<inter> p_readable pe then
           (case p_readPacket pe of
              Inl x \<Rightarrow> ([GetSocketFd, Select {clientFd} 1000000, ReadPacket], PollThrow x)
            | Inr None \<Rightarrow> ([GetSocketFd, Select {clientFd} 1000000, ReadPacket], NoResponse)
            | Inr (Some r) \<Rightarrow>
                if r_header r \<noteq> INITIAL_RESPONSE
                then ([GetSocketFd, Select {clientFd} 1000000, ReadPacket], PollReturn 1)
                else (case r_has_error r of
                        Inl x \<Rightarrow> ([GetSocketFd, Select {clientFd} 1000000, ReadPacket], PollThrow x)
                      | Inr True \<Rightarrow>
                          ([GetSocketFd, Select {clientFd} 1000000, ReadPacket], PollReturn 1)
                      | Inr False \<Rightarrow>
                          ([GetSocketFd, Select {clientFd} 1000000, ReadPacket], Responded)))
         else ([GetSocketFd, Select {clientFd} 1000000], NoResponse))"

text \<open>\<open>for (int a = 0; a < 3; a++)\<close>, from the pass \<open>a\<close> on.\<close>

function poll_loop :: "(nat \<Rightarrow> poll_env) \<Rightarrow> nat \<Rightarrow> action list \<times> poll_result" where
  "poll_loop ps a =
    (if a < 3 then
       (if snd (poll (ps a)) = NoResponse
        then (fst (poll (ps a)) @ fst (poll_loop ps (a + 1)), snd (poll_loop ps (a + 1)))
        else poll (ps a))
     else ([], NoResponse))"
  by pat_completeness auto
termination
  by (relation "measure (\<lambda>(ps, a). 3 - a)") auto

datatype attempt_result =
    AttemptFailed \<comment> \<open>\<open>fail\<close> is true at line 92\<close>
  | AttemptDone \<comment> \<open>\<open>fail\<close> is false: the \<open>break\<close> of line 102\<close>
  | AttemptReturn int \<comment> \<open>a \<open>return 1\<close> of line 79, 84 or 100\<close>

text \<open>
  The body of the \<open>try\<close> of line 51 up to line 91, with the handler of line 99: whatever
  is thrown inside becomes \<open>return 1\<close>.
\<close>

definition attempt :: "attempt_env \<Rightarrow> action list \<times> attempt_result" where
  "attempt ae =
    (case a_connect ae of
       Inl x \<Rightarrow> ([Connect], AttemptReturn 1)
     | Inr False \<Rightarrow> ([Connect], AttemptFailed)
     | Inr True \<Rightarrow>
         (case a_writePacket ae of
            Some x \<Rightarrow>
              ([Connect, WritePacket (Packet INITIAL_PAYLOAD (InitialPayload False))],
               AttemptReturn 1)
          | None \<Rightarrow>
              (Connect # WritePacket (Packet INITIAL_PAYLOAD (InitialPayload False))
                 # fst (poll_loop (a_polls ae) 0),
               case snd (poll_loop (a_polls ae) 0) of
                 NoResponse \<Rightarrow> AttemptFailed
               | Responded \<Rightarrow> AttemptDone
               | PollReturn c \<Rightarrow> AttemptReturn c
               | PollThrow x \<Rightarrow> AttemptReturn 1)))"

datatype connect_result = Connected | ConnectReturn int

text \<open>
  \<open>while (true)\<close> of line 50, entered with the given \<open>connectFailCount\<close>. The counter
  starts at 0 and grows by one with every pass that is repeated, so the pass that runs
  with the counter at \<open>n\<close> is the pass number \<open>n\<close>: it sees \<open>envs n\<close>.
\<close>

function connect_loop :: "(nat \<Rightarrow> attempt_env) \<Rightarrow> nat \<Rightarrow> action list \<times> connect_result" where
  "connect_loop envs connectFailCount =
    (case snd (attempt (envs connectFailCount)) of
       AttemptReturn c \<Rightarrow> (fst (attempt (envs connectFailCount)), ConnectReturn c)
     | AttemptDone \<Rightarrow> (fst (attempt (envs connectFailCount)), Connected)
     | AttemptFailed \<Rightarrow>
         if connectFailCount + 1 \<ge> 3
         then (fst (attempt (envs connectFailCount)), ConnectReturn 1)
         else (fst (attempt (envs connectFailCount)) @ fst (connect_loop envs (connectFailCount + 1)),
               snd (connect_loop envs (connectFailCount + 1))))"
  by pat_completeness auto
termination
  by (relation "measure (\<lambda>(envs, n). 3 - n)") auto

declare poll_loop.simps [simp del]
declare connect_loop.simps [simp del]

subsection \<open>The main loop (lines 105-223)\<close>

text \<open>\<open>#define ET_BUF_SIZE (16 * 1024)\<close>\<close>

definition ET_BUF_SIZE :: nat where
  "ET_BUF_SIZE = 16 * 1024"

text \<open>
  What is fixed when the loop starts: the two descriptors of lines 106-107 and the
  interval after line 29. \<open>time_t\<close> and the interval are \<open>int\<close>: the sums of lines 112,
  149, 173 and 188 add a clock reading and a 32-bit interval in a 64-bit \<open>time_t\<close>.
\<close>

record config =
  inFd :: int
  outFd :: int
  interval :: int

text \<open>The variables of lines 110-113.\<close>

record loop_state =
  lastTerminalInfo :: terminal_info
  keepaliveTime :: int
  waitingOnKeepalive :: bool

text \<open>
  A packet that \<open>connection->read\<close> delivers: its header, what
  \<open>stringToProto<TerminalBuffer>(payload).buffer()\<close> gives (it throws, or returns the
  bytes), what the successive \<open>::write\<close> calls of line 169 return (the \<open>k\<close>-th call
  returns \<open>in_write_rc k\<close>), and the clock reading of line 173.
\<close>

record inbound =
  in_header :: packet_type
  in_buffer :: "exn + string"
  in_write_rc :: "nat \<Rightarrow> int"
  in_now :: int

text \<open>
  One pass of the \<open>while (connection->hasData())\<close> of line 154 with \<open>hasData\<close> true (or
  throwing). The list of these a tick sees ends where \<open>hasData\<close> returns false.
\<close>

datatype recv =
    HasDataThrows exn
  | ReadThrows exn
  | ReadFalse
  | ReadTrue inbound

text \<open>
  What the collaborators answer during one pass of the loop of line 118.
  \<open>t_raises\<close> says which of the calls \<open>writePacket\<close> and \<open>closeSocketAndMaybeReconnect\<close>
  throw (each is made at most once per pass with a given argument); \<open>t_now_input\<close>,
  \<open>t_now_check\<close> and \<open>t_now_set\<close> are the clock readings of lines 149, 187 and 188;
  \<open>t_ws\<close> is the struct behind \<open>ws\<close> as lines 205-208 read it.
\<close>

record tick_env =
  t_isShuttingDown :: "exn + bool"
  t_getSocketFd :: "exn + int"
  t_readable :: "int set"
  t_read_rc :: int
  t_read_buf :: string
  t_raises :: "action \<Rightarrow> exn option"
  t_inbound :: "recv list"
  t_now_input :: int
  t_now_check :: int
  t_now_set :: int
  t_ws :: winsize

text \<open>
  How a piece of the \<open>try\<close> block of line 136 ends: it falls through with the updated
  variables, it leaves the loop with \<open>break\<close>, or it throws.
\<close>

datatype flow = Next loop_state | Break | Throw exn

definition and_then ::
  "action list \<times> flow \<Rightarrow> (loop_state \<Rightarrow> action list \<times> flow) \<Rightarrow> action list \<times> flow" where
  "and_then r f =
    (case snd r of
       Next st \<Rightarrow> (fst r @ fst (f st), snd (f st))
     | Break \<Rightarrow> r
     | Throw x \<Rightarrow> r)"

text \<open>
  A call of the connection that may throw: the call is made (it is in the trace), then
  either the exception leaves the block or the rest runs.
\<close>

definition call ::
  "tick_env \<Rightarrow> action \<Rightarrow> loop_state \<Rightarrow> action list \<times> flow" where
  "call e a st = (case t_raises e a of Some x \<Rightarrow> ([a], Throw x) | None \<Rightarrow> ([a], Next st))"

text \<open>Lines 138-150. \<open>rfd\<close> is the descriptor set after \<open>select\<close>.\<close>

definition input_phase ::
  "config \<Rightarrow> tick_env \<Rightarrow> int set \<Rightarrow> loop_state \<Rightarrow> action list \<times> flow" where
  "input_phase cfg e rfd st =
    (if inFd cfg \<in> rfd then
       (if t_read_rc e \<le> 0 then ([SysRead (inFd cfg) ET_BUF_SIZE], Break)
        else
          and_then
            (SysRead (inFd cfg) ET_BUF_SIZE #
               fst (call e (WritePacket (Packet TERMINAL_BUFFER
                      (TerminalBuffer (take (nat (t_read_rc e)) (t_read_buf e))))) st),
             snd (call e (WritePacket (Packet TERMINAL_BUFFER
                      (TerminalBuffer (take (nat (t_read_rc e)) (t_read_buf e))))) st))
            (\<lambda>st. ([], Next (st\<lparr>keepaliveTime := t_now_input e + interval cfg\<rparr>))))
     else ([], Next st))"

text \<open>
  Lines 166-172: \<open>written\<close> bytes of \<open>s\<close> are out, \<open>k\<close> calls of \<open>::write\<close> were made.
  The loop goes on only after a positive \<open>rc\<close>, so \<open>written\<close> grows.
\<close>

function write_loop :: "int \<Rightarrow> (nat \<Rightarrow> int) \<Rightarrow> string \<Rightarrow> nat \<Rightarrow> nat \<Rightarrow> action list" where
  "write_loop fd rcs s written k =
    (if written < length s then
       SysWrite fd (drop written s) (rcs k) #
         (if rcs k \<le> 0 then []
          else write_loop fd rcs s (written + nat (rcs k)) (Suc k))
     else [])"
  by pat_completeness auto
termination
  by (relation "measure (\<lambda>(fd, rcs, s, written, k). length s - written)") auto

declare write_loop.simps [simp del]

text \<open>The \<open>switch\<close> of lines 160-182 on one packet.\<close>

definition dispatch :: "config \<Rightarrow> inbound \<Rightarrow> loop_state \<Rightarrow> action list \<times> flow" where
  "dispatch cfg p st =
    (case in_header p of
       TERMINAL_BUFFER \<Rightarrow>
         (case in_buffer p of
            Inl x \<Rightarrow> ([], Throw x)
          | Inr s \<Rightarrow>
              (write_loop (outFd cfg) (in_write_rc p) s 0 0,
               Next (st\<lparr>keepaliveTime := in_now p + interval cfg\<rparr>)))
     | KEEP_ALIVE \<Rightarrow> ([], Next (st\<lparr>waitingOnKeepalive := False\<rparr>))
     | _ \<Rightarrow> ([], Next st))"

text \<open>The \<open>while\<close> of lines 154-183 over what the connection has.\<close>

fun drain :: "config \<Rightarrow> recv list \<Rightarrow> loop_state \<Rightarrow> action list \<times> flow" where
  "drain cfg [] st = ([HasData], Next st)"
| "drain cfg (HasDataThrows x # rest) st = ([HasData], Throw x)"
| "drain cfg (ReadThrows x # rest) st = ([HasData, Read], Throw x)"
| "drain cfg (ReadFalse # rest) st = ([HasData, Read], Next st)"
| "drain cfg (ReadTrue p # rest) st =
     and_then (HasData # Read # fst (dispatch cfg p st), snd (dispatch cfg p st))
       (drain cfg rest)"

text \<open>Lines 153-184.\<close>

definition server_phase ::
  "config \<Rightarrow> tick_env \<Rightarrow> int \<Rightarrow> int set \<Rightarrow> loop_state \<Rightarrow> action list \<times> flow" where
  "server_phase cfg e clientFd rfd st =
    (if clientFd > 0 \<and> clientFd \<in> rfd then drain cfg (t_inbound e) st
     else ([], Next st))"

text \<open>Lines 187-197.\<close>

definition keepalive_phase ::
  "config \<Rightarrow> tick_env \<Rightarrow> int \<Rightarrow> loop_state \<Rightarrow> action list \<times> flow" where
  "keepalive_phase cfg e clientFd st =
    (if clientFd > 0 \<and> keepaliveTime st < t_now_check e then
       (if waitingOnKeepalive st then
          and_then
            (call e CloseSocketAndMaybeReconnect
               (st\<lparr>keepaliveTime := t_now_set e + interval cfg\<rparr>))
            (\<lambda>st. ([], Next (st\<lparr>waitingOnKeepalive := False\<rparr>)))
        else
          and_then
            (call e (WritePacket (Packet KEEP_ALIVE EmptyString))
               (st\<lparr>keepaliveTime := t_now_set e + interval cfg\<rparr>))
            (\<lambda>st. ([], Next (st\<lparr>waitingOnKeepalive := True\<rparr>))))
     else ([], Next st))"

text \<open>Lines 198-200.\<close>

definition invalid_fd_phase :: "int \<Rightarrow> loop_state \<Rightarrow> action list \<times> flow" where
  "invalid_fd_phase clientFd st =
    (if clientFd < 0 then ([], Next (st\<lparr>waitingOnKeepalive := False\<rparr>))
     else ([], Next st))"

text \<open>Lines 204-208: the \<open>unsigned short\<close> fields widen to the integer fields.\<close>

definition observe :: "winsize \<Rightarrow> terminal_info" where
  "observe w =
    \<lparr>ti_row = uint (ws_row w), ti_column = uint (ws_col w),
     ti_width = uint (ws_xpixel w), ti_height = uint (ws_ypixel w)\<rparr>"

text \<open>
  Lines 203-218. The test \<open>if (ws)\<close> of line 203 holds whenever the loop runs: line 24
  has returned otherwise, and \<open>ws\<close> is not assigned.
\<close>

definition geometry_phase :: "tick_env \<Rightarrow> loop_state \<Rightarrow> action list \<times> flow" where
  "geometry_phase e st =
    (if ti_row (observe (t_ws e)) \<noteq> ti_row (lastTerminalInfo st) \<or>
        ti_column (observe (t_ws e)) \<noteq> ti_column (lastTerminalInfo st) \<or>
        ti_width (observe (t_ws e)) \<noteq> ti_width (lastTerminalInfo st) \<or>
        ti_height (observe (t_ws e)) \<noteq> ti_height (lastTerminalInfo st)
     then
       call e (WritePacket (Packet TERMINAL_INFO (TerminalInfo (observe (t_ws e)))))
         (st\<lparr>lastTerminalInfo := observe (t_ws e)\<rparr>)
     else ([], Next st))"

text \<open>The \<open>try\<close> block of lines 136-218.\<close>

definition try_body ::
  "config \<Rightarrow> tick_env \<Rightarrow> int \<Rightarrow> int set \<Rightarrow> loop_state \<Rightarrow> action list \<times> flow" where
  "try_body cfg e clientFd rfd st =
    and_then
      (and_then
        (and_then
          (and_then (input_phase cfg e rfd st) (server_phase cfg e clientFd rfd))
          (keepalive_phase cfg e clientFd))
        (invalid_fd_phase clientFd))
      (geometry_phase e)"

text \<open>Lines 122-130: the descriptors handed to \<open>select\<close>.\<close>

definition watched :: "config \<Rightarrow> int \<Rightarrow> int set" where
  "watched cfg clientFd = (if clientFd > 0 then {inFd cfg, clientFd} else {inFd cfg})"

text \<open>
  How the loop of line 118 ends: it is left (by its condition, by a \<open>break\<close>, or by the
  handler of line 219), an exception escapes it to the handler of line 226, or the
  ticks given are used up while it is still running.
\<close>

datatype loop_result = LoopLeft | Escaped exn | Running loop_state

text \<open>One pass of the loop, lines 118-222, and what it means for the loop.\<close>

datatype tick_result = Again loop_state | Leave | Escape exn

definition tick :: "config \<Rightarrow> tick_env \<Rightarrow> loop_state \<Rightarrow> action list \<times> tick_result" where
  "tick cfg e st =
    (case t_isShuttingDown e of
       Inl x \<Rightarrow> ([IsShuttingDown], Escape x)
     | Inr True \<Rightarrow> ([IsShuttingDown], Leave)
     | Inr False \<Rightarrow>
         (case t_getSocketFd e of
            Inl x \<Rightarrow> ([IsShuttingDown, GetSocketFd], Escape x)
          | Inr clientFd \<Rightarrow>
              (IsShuttingDown # GetSocketFd # Select (watched cfg clientFd) 10000 #
                 fst (try_body cfg e clientFd (watched cfg clientFd \<inter> t_readable e) st),
               case snd (try_body cfg e clientFd (watched cfg clientFd \<inter> t_readable e) st) of
                 Next st' \<Rightarrow> Again st'
               | Break \<Rightarrow> Leave
               | Throw RuntimeError \<Rightarrow> Leave
               | Throw OtherException \<Rightarrow> Escape OtherException)))"

fun main_loop :: "config \<Rightarrow> tick_env list \<Rightarrow> loop_state \<Rightarrow> action list \<times> loop_result" where
  "main_loop cfg [] st = ([], Running st)"
| "main_loop cfg (e # es) st =
     (case snd (tick cfg e st) of
        Again st' \<Rightarrow> (fst (tick cfg e st) @ fst (main_loop cfg es st'), snd (main_loop cfg es st'))
      | Leave \<Rightarrow> (fst (tick cfg e st), LoopLeft)
      | Escape x \<Rightarrow> (fst (tick cfg e st), Escaped x))"

subsection \<open>The entry point\<close>

text \<open>
  The arguments. A pointer is \<open>None\<close> when it is null; behind \<open>f_in\<close> and \<open>f_out\<close> is the
  descriptor \<open>fileno\<close> gives. \<open>ident\<close> is the argument \<open>id\<close>.
\<close>

record args =
  f_in :: "int option"
  f_out :: "int option"
  ws :: "unit option"
  host :: "string option"
  port :: int
  ident :: "string option"
  passkey :: "string option"
  keepalive_secs :: int

text \<open>
  A whole run: what the constructors of lines 39-46 do, the passes of the connect loop,
  the clock reading of line 112, the ticks of the main loop that are observed, and
  whether \<open>shutdown\<close> throws.
\<close>

record world =
  w_construct :: "exn option"
  w_attempts :: "nat \<Rightarrow> attempt_env"
  w_now_start :: int
  w_ticks :: "tick_env list"
  w_shutdown :: "exn option"

text \<open>
  Modelled from the spec: the class \<open>TerminalInfo\<close> is generated from ETerminal.proto,
  which is not under src/. A default-constructed \<open>TerminalInfo\<close> (line 110) reads as
  zero in all four fields: the "zero-valued geometry" sentinel of the spec's section 9.
\<close>

definition default_TerminalInfo :: terminal_info where
  "default_TerminalInfo = \<lparr>ti_row = 0, ti_column = 0, ti_width = 0, ti_height = 0\<rparr>"

text \<open>Lines 27-29.\<close>

definition clamp_keepalive :: "int \<Rightarrow> int" where
  "clamp_keepalive k = (if k < 1 then 5 else k)"

text \<open>Lines 110-113.\<close>

definition initial_state :: "int \<Rightarrow> int \<Rightarrow> loop_state" where
  "initial_state now k =
    \<lparr>lastTerminalInfo = default_TerminalInfo, keepaliveTime = now + k,
     waitingOnKeepalive = False\<rparr>"

text \<open>Lines 105-230, once the connect loop is left by its \<open>break\<close>.\<close>

definition session :: "config \<Rightarrow> world \<Rightarrow> action list \<times> int option" where
  "session cfg w =
    (case snd (main_loop cfg (w_ticks w) (initial_state (w_now_start w) (interval cfg))) of
       Running st \<Rightarrow>
         (fst (main_loop cfg (w_ticks w) (initial_state (w_now_start w) (interval cfg))), None)
     | Escaped x \<Rightarrow>
         (fst (main_loop cfg (w_ticks w) (initial_state (w_now_start w) (interval cfg))), Some 1)
     | LoopLeft \<Rightarrow>
         (fst (main_loop cfg (w_ticks w) (initial_state (w_now_start w) (interval cfg)))
            @ [Shutdown],
          case w_shutdown w of Some x \<Rightarrow> Some 1 | None \<Rightarrow> Some 0))"

text \<open>
  The function. The result is the trace and the value returned; \<open>None\<close> stands for a run
  whose loop is still going when the observed ticks end.
\<close>

definition et_client_main :: "args \<Rightarrow> world \<Rightarrow> action list \<times> int option" where
  "et_client_main a w =
    (if f_in a = None \<or> f_out a = None \<or> ws a = None \<or> host a = None \<or>
        ident a = None \<or> passkey a = None
     then ([], Some 1)
     else
       (case w_construct w of
          Some x \<Rightarrow> ([AddLoggerFlag], Some 1)
        | None \<Rightarrow>
            (case snd (connect_loop (w_attempts w) 0) of
               ConnectReturn c \<Rightarrow> (AddLoggerFlag # fst (connect_loop (w_attempts w) 0), Some c)
             | Connected \<Rightarrow>
                 (AddLoggerFlag # fst (connect_loop (w_attempts w) 0) @
                    fst (session
                      \<lparr>inFd = the (f_in a), outFd = the (f_out a),
                       interval = clamp_keepalive (keepalive_secs a)\<rparr> w),
                  snd (session
                      \<lparr>inFd = the (f_in a), outFd = the (f_out a),
                       interval = clamp_keepalive (keepalive_secs a)\<rparr> w)))))"

subsection \<open>The handshake in the words of the specification\<close>

text \<open>
  The outcomes of one poll as the specification tells them apart, read off the
  collaborators' answers alone. A poll is silent when it ends with no packet: the
  descriptor is invalid (negative), or \<open>select\<close> does not report it readable, or
  \<open>readPacket\<close> returns false.
\<close>

definition poll_silent :: "poll_env \<Rightarrow> bool" where
  "poll_silent pe =
    (case p_getSocketFd pe of
       Inl x \<Rightarrow> False
     | Inr fd \<Rightarrow> fd < 0 \<or> fd \<notin> p_readable pe \<or> p_readPacket pe = Inr None)"

text \<open>A valid response: a packet of the initial-response kind that carries no error.\<close>

definition poll_valid :: "poll_env \<Rightarrow> bool" where
  "poll_valid pe =
    (case p_getSocketFd pe of
       Inl x \<Rightarrow> False
     | Inr fd \<Rightarrow>
         0 \<le> fd \<and> fd \<in> p_readable pe \<and>
         (case p_readPacket pe of
            Inr (Some r) \<Rightarrow> r_header r = INITIAL_RESPONSE \<and> r_has_error r = Inr False
          | _ \<Rightarrow> False))"

text \<open>A rejected response: a packet of another kind, or one that carries an error.\<close>

definition poll_rejected :: "poll_env \<Rightarrow> bool" where
  "poll_rejected pe =
    (case p_getSocketFd pe of
       Inl x \<Rightarrow> False
     | Inr fd \<Rightarrow>
         0 \<le> fd \<and> fd \<in> p_readable pe \<and>
         (case p_readPacket pe of
            Inr (Some r) \<Rightarrow>
              r_header r \<noteq> INITIAL_RESPONSE \<or>
              (r_header r = INITIAL_RESPONSE \<and> r_has_error r = Inr True)
          | _ \<Rightarrow> False))"

text \<open>An exception during the poll: from \<open>getSocketFd\<close>, \<open>readPacket\<close> or the decoder.\<close>

definition poll_raises :: "poll_env \<Rightarrow> bool" where
  "poll_raises pe =
    (case p_getSocketFd pe of
       Inl x \<Rightarrow> True
     | Inr fd \<Rightarrow>
         0 \<le> fd \<and> fd \<in> p_readable pe \<and>
         (case p_readPacket pe of
            Inl x \<Rightarrow> True
          | Inr None \<Rightarrow> False
          | Inr (Some r) \<Rightarrow> r_header r = INITIAL_RESPONSE \<and> isl (r_has_error r)))"

text \<open>
  An outer attempt ends without a response when the transport does not open, or all
  three polls are silent.
\<close>

definition attempt_silent :: "attempt_env \<Rightarrow> bool" where
  "attempt_silent ae =
    (a_connect ae = Inr False \<or>
     (a_connect ae = Inr True \<and> a_writePacket ae = None \<and>
      (\<forall>a<3. poll_silent (a_polls ae a))))"

text \<open>It delivers a valid response when one of its three polls does, after silent ones.\<close>

definition attempt_valid :: "attempt_env \<Rightarrow> bool" where
  "attempt_valid ae =
    (a_connect ae = Inr True \<and> a_writePacket ae = None \<and>
     (\<exists>j<3. (\<forall>a<j. poll_silent (a_polls ae a)) \<and> poll_valid (a_polls ae j)))"

text \<open>
  It is aborted when something throws (\<open>connect\<close>, \<open>writePacket\<close>, a poll) or a poll
  reads a rejected response.
\<close>

definition attempt_aborted :: "attempt_env \<Rightarrow> bool" where
  "attempt_aborted ae =
    (isl (a_connect ae) \<or>
     (a_connect ae = Inr True \<and>
      (a_writePacket ae \<noteq> None \<or>
       (\<exists>j<3. (\<forall>a<j. poll_silent (a_polls ae a)) \<and>
          (poll_rejected (a_polls ae j) \<or> poll_raises (a_polls ae j))))))"

text \<open>How long a call may wait, in microseconds: the sleep of line 67, a \<open>select\<close> timeout.\<close>

fun wait_usec :: "action \<Rightarrow> nat" where
  "wait_usec (SleepFor n) = n * 1000000"
| "wait_usec (Select fds usec) = usec"
| "wait_usec a = 0"

text \<open>The test of line 24 passes.\<close>

definition valid_args :: "args \<Rightarrow> bool" where
  "valid_args a =
    (f_in a \<noteq> None \<and> f_out a \<noteq> None \<and> ws a \<noteq> None \<and> host a \<noteq> None \<and>
     ident a \<noteq> None \<and> passkey a \<noteq> None)"

subsection \<open>Reading a trace\<close>

text \<open>
  The calls of a tick by the part of the \<open>try\<close> block that makes them: the local input
  (lines 138-150), the data from the server (lines 153-184), the keepalive (lines
  187-197), the terminal size (lines 203-218).
\<close>

fun input_action :: "action \<Rightarrow> bool" where
  "input_action (SysRead fd n) = True"
| "input_action (WritePacket (Packet TERMINAL_BUFFER p)) = True"
| "input_action a = False"

fun server_action :: "action \<Rightarrow> bool" where
  "server_action HasData = True"
| "server_action Read = True"
| "server_action (SysWrite fd bytes rc) = True"
| "server_action a = False"

fun keepalive_action :: "action \<Rightarrow> bool" where
  "keepalive_action CloseSocketAndMaybeReconnect = True"
| "keepalive_action (WritePacket (Packet KEEP_ALIVE p)) = True"
| "keepalive_action a = False"

fun geometry_action :: "action \<Rightarrow> bool" where
  "geometry_action (WritePacket (Packet TERMINAL_INFO p)) = True"
| "geometry_action a = False"

text \<open>
  The bytes that reached the descriptor \<open>fd\<close>: a \<open>::write\<close> that returns \<open>rc\<close> has
  written the first \<open>rc\<close> bytes it was given.
\<close>

fun written_on :: "int \<Rightarrow> action \<Rightarrow> string" where
  "written_on fd (SysWrite fd' bytes rc) = (if fd' = fd then take (nat rc) bytes else [])"
| "written_on fd a = []"

definition output_on :: "int \<Rightarrow> action list \<Rightarrow> string" where
  "output_on fd tr = concat (map (written_on fd) tr)"


text \<open>
  The specification's "one message per distinct transition": of a sequence of
  observations, those that differ from the one before, the first being compared with
  \<open>prev\<close>.
\<close>

fun transitions :: "'a \<Rightarrow> 'a list \<Rightarrow> 'a list" where
  "transitions prev [] = []"
| "transitions prev (x # xs) =
     (if x \<noteq> prev then x # transitions x xs else transitions x xs)"

text \<open>The geometry-change message of line 215.\<close>

definition geometry_packet :: "terminal_info \<Rightarrow> action" where
  "geometry_packet ti = WritePacket (Packet TERMINAL_INFO (TerminalInfo ti))"

text \<open>The window size that is zero in all four fields.\<close>

definition zero_winsize :: winsize where
  "zero_winsize = \<lparr>ws_row = 0, ws_col = 0, ws_xpixel = 0, ws_ypixel = 0\<rparr>"

text \<open>
  The clock readings a tick can add the interval to: those of lines 149 and 188, and
  the one of line 173 for every packet read.
\<close>

fun recv_now :: "recv \<Rightarrow> int list" where
  "recv_now (ReadTrue p) = [in_now p]"
| "recv_now r = []"

definition readings :: "tick_env \<Rightarrow> int set" where
  "readings e = set (t_now_input e # t_now_set e # concat (map recv_now (t_inbound e)))"

subsection \<open>Concrete runs\<close>

text \<open>
  Answers of the collaborators on which the functions are run below: polls and attempts
  of the handshake, arguments, and ticks of the main loop. The transport descriptor is
  7, the local input is descriptor 3, the local output descriptor 4, the interval 5 and
  the clock starts at 100.
\<close>

definition silent_poll :: poll_env where
  "silent_poll = \<lparr>p_getSocketFd = Inr 7, p_readable = {}, p_readPacket = Inr None\<rparr>"

definition valid_poll :: poll_env where
  "valid_poll =
    \<lparr>p_getSocketFd = Inr 7, p_readable = {7},
     p_readPacket = Inr (Some \<lparr>r_header = INITIAL_RESPONSE, r_has_error = Inr False\<rparr>)\<rparr>"

definition wrong_kind_poll :: poll_env where
  "wrong_kind_poll =
    \<lparr>p_getSocketFd = Inr 7, p_readable = {7},
     p_readPacket = Inr (Some \<lparr>r_header = TERMINAL_BUFFER, r_has_error = Inr False\<rparr>)\<rparr>"

definition error_poll :: poll_env where
  "error_poll =
    \<lparr>p_getSocketFd = Inr 7, p_readable = {7},
     p_readPacket = Inr (Some \<lparr>r_header = INITIAL_RESPONSE, r_has_error = Inr True\<rparr>)\<rparr>"

definition dead_attempt :: attempt_env where
  "dead_attempt = \<lparr>a_connect = Inr False, a_writePacket = None, a_polls = (\<lambda>a. silent_poll)\<rparr>"

definition slow_attempt :: attempt_env where
  "slow_attempt = \<lparr>a_connect = Inr True, a_writePacket = None, a_polls = (\<lambda>a. silent_poll)\<rparr>"

definition good_attempt :: attempt_env where
  "good_attempt =
    \<lparr>a_connect = Inr True, a_writePacket = None,
     a_polls = (\<lambda>a. if a = Suc 0 then valid_poll else silent_poll)\<rparr>"

definition wrong_kind_attempt :: attempt_env where
  "wrong_kind_attempt =
    \<lparr>a_connect = Inr True, a_writePacket = None, a_polls = (\<lambda>a. wrong_kind_poll)\<rparr>"

definition error_attempt :: attempt_env where
  "error_attempt =
    \<lparr>a_connect = Inr True, a_writePacket = None,
     a_polls = (\<lambda>a. if a = Suc 0 then error_poll else silent_poll)\<rparr>"

definition example_args :: args where
  "example_args =
    \<lparr>f_in = Some 3, f_out = Some 4, ws = Some (), host = Some ''example.org'', port = 2022,
     ident = Some ''client'', passkey = Some ''secret'', keepalive_secs = 0\<rparr>"

definition world_of :: "(nat \<Rightarrow> attempt_env) \<Rightarrow> tick_env list \<Rightarrow> world" where
  "world_of envs ticks =
    \<lparr>w_construct = None, w_attempts = envs, w_now_start = 100, w_ticks = ticks,
     w_shutdown = None\<rparr>"

definition example_cfg :: config where
  "example_cfg = \<lparr>inFd = 3, outFd = 4, interval = 5\<rparr>"

definition idle_tick :: tick_env where
  "idle_tick =
    \<lparr>t_isShuttingDown = Inr False, t_getSocketFd = Inr 7, t_readable = {},
     t_read_rc = 0, t_read_buf = [], t_raises = (\<lambda>a. None), t_inbound = [],
     t_now_input = 100, t_now_check = 100, t_now_set = 100, t_ws = zero_winsize\<rparr>"

definition example_state :: loop_state where
  "example_state = initial_state 100 5"

definition hello_packet :: "(nat \<Rightarrow> int) \<Rightarrow> inbound" where
  "hello_packet rcs =
    \<lparr>in_header = TERMINAL_BUFFER, in_buffer = Inr ''hello'', in_write_rc = rcs, in_now = 101\<rparr>"

definition ack_packet :: inbound where
  "ack_packet =
    \<lparr>in_header = KEEP_ALIVE, in_buffer = Inr [], in_write_rc = (\<lambda>k. 0), in_now = 101\<rparr>"

definition eof_tick :: tick_env where
  "eof_tick = idle_tick\<lparr>t_readable := {3}, t_read_rc := 0\<rparr>"

definition typing_tick :: tick_env where
  "typing_tick = idle_tick\<lparr>t_readable := {3}, t_read_rc := 2, t_read_buf := ''ls''\<rparr>"

definition disconnected_tick :: tick_env where
  "disconnected_tick = idle_tick\<lparr>t_getSocketFd := Inr (- 1)\<rparr>"

definition zero_fd_tick :: tick_env where
  "zero_fd_tick = idle_tick\<lparr>t_getSocketFd := Inr 0, t_readable := {0}, t_now_check := 200,
     t_inbound := [ReadTrue ack_packet]\<rparr>"

definition ack_tick :: tick_env where
  "ack_tick = idle_tick\<lparr>t_readable := {7}, t_inbound := [ReadTrue ack_packet]\<rparr>"

definition tick_at :: "int \<Rightarrow> tick_env" where
  "tick_at now = idle_tick\<lparr>t_now_input := now, t_now_check := now, t_now_set := now\<rparr>"

definition resized_tick :: tick_env where
  "resized_tick =
    idle_tick\<lparr>t_ws := \<lparr>ws_row = 24, ws_col = 80, ws_xpixel = 0, ws_ypixel = 0\<rparr>\<rparr>"

definition failing_tick :: "exn \<Rightarrow> tick_env" where
  "failing_tick x = typing_tick\<lparr>t_raises := (\<lambda>a. Some x)\<rparr>"

definition busy_disconnected_tick :: tick_env where
  "busy_disconnected_tick =
    typing_tick\<lparr>t_getSocketFd := Inr (- 1),
      t_ws := \<lparr>ws_row = 24, ws_col = 80, ws_xpixel = 0, ws_ypixel = 0\<rparr>\<rparr>"

section \<open>Properties\<close>

subsection \<open>The connect loop\<close>

text \<open>
  The result of a poll, of the three polls and of an attempt, computed by the code, is
  the one the specification's reading of the collaborators' answers names.
\<close>

lemma poll_NoResponse_iff: "snd (poll pe) = NoResponse \<longleftrightarrow> poll_silent pe"
  by (auto simp add: poll_def poll_silent_def split: sum.splits option.splits bool.splits)

lemma poll_Responded_iff: "snd (poll pe) = Responded \<longleftrightarrow> poll_valid pe"
  by (auto simp add: poll_def poll_valid_def split: sum.splits option.splits bool.splits)

lemma poll_Return_iff: "snd (poll pe) = PollReturn c \<longleftrightarrow> c = 1 \<and> poll_rejected pe"
  by (auto simp add: poll_def poll_rejected_def split: sum.splits option.splits bool.splits)

lemma poll_Throw_iff: "(\<exists>x. snd (poll pe) = PollThrow x) \<longleftrightarrow> poll_raises pe"
  by (auto simp add: poll_def poll_raises_def split: sum.splits option.splits bool.splits)

text \<open>The loops run at most three times: they are unrolled.\<close>

lemma poll_loop_3: "poll_loop ps 3 = ([], NoResponse)"
  by (simp add: poll_loop.simps [of ps 3])

lemma poll_loop_2:
  "poll_loop ps 2 = poll (ps 2)"
  by (simp add: poll_loop.simps [of ps 2] poll_loop_3 split: prod.splits) (metis prod.collapse)


lemma poll_loop_1:
  "poll_loop ps (Suc 0) =
    (if snd (poll (ps (Suc 0))) = NoResponse
     then (fst (poll (ps (Suc 0))) @ fst (poll (ps 2)), snd (poll (ps 2)))
     else poll (ps (Suc 0)))"
  using poll_loop.simps [of ps "Suc 0"] poll_loop_2 [of ps] by (simp add: numeral_2_eq_2)

lemma poll_loop_0:
  "poll_loop ps 0 =
    (if snd (poll (ps 0)) = NoResponse
     then (if snd (poll (ps (Suc 0))) = NoResponse
           then (fst (poll (ps 0)) @ fst (poll (ps (Suc 0))) @ fst (poll (ps 2)), snd (poll (ps 2)))
           else (fst (poll (ps 0)) @ fst (poll (ps (Suc 0))), snd (poll (ps (Suc 0)))))
     else poll (ps 0))"
  using poll_loop.simps [of ps 0] by (simp add: poll_loop_1)

lemma less_3_cases: "(j::nat) < 3 \<longleftrightarrow> j = 0 \<or> j = Suc 0 \<or> j = 2"
  by auto

lemma all_less_3: "(\<forall>a<3. P (a::nat)) \<longleftrightarrow> P 0 \<and> P (Suc 0) \<and> P 2"
  by (auto simp add: less_3_cases)

lemma ex_less_3: "(\<exists>a<3. P (a::nat)) \<longleftrightarrow> P 0 \<or> P (Suc 0) \<or> P 2"
  by (auto simp add: less_3_cases)

lemma all_less_1: "(\<forall>a<1. P (a::nat)) \<longleftrightarrow> P 0"
  by auto

lemma all_less_2: "(\<forall>a<2. P (a::nat)) \<longleftrightarrow> P 0 \<and> P (Suc 0)"
  by (auto simp add: less_Suc_eq numeral_2_eq_2)

lemma poll_result_cases:
  "poll_silent pe \<or> poll_valid pe \<or> poll_rejected pe \<or> poll_raises pe"
  using poll_NoResponse_iff [of pe] poll_Responded_iff [of pe] poll_Return_iff [of pe]
    poll_Throw_iff [of pe]
  by (cases "snd (poll pe)") auto

lemma poll_silent_not:
  "poll_silent pe \<Longrightarrow> \<not> poll_valid pe \<and> \<not> poll_rejected pe \<and> \<not> poll_raises pe"
  using poll_NoResponse_iff [of pe] poll_Responded_iff [of pe] poll_Return_iff [of pe]
    poll_Throw_iff [of pe]
  by (metis poll_result.distinct(1,3,5))


lemma poll_loop_NoResponse_iff:
  "snd (poll_loop ps 0) = NoResponse \<longleftrightarrow> (\<forall>a<3. poll_silent (ps a))"
  by (simp add: poll_loop_0 all_less_3 poll_NoResponse_iff [symmetric])

lemma poll_loop_Responded_iff:
  "snd (poll_loop ps 0) = Responded \<longleftrightarrow>
     (\<exists>j<3. (\<forall>a<j. poll_silent (ps a)) \<and> poll_valid (ps j))"
  by (auto simp add: poll_loop_0 ex_less_3 all_less_1 all_less_2
        poll_NoResponse_iff [symmetric] poll_Responded_iff [symmetric])

lemma poll_loop_Return_iff:
  "snd (poll_loop ps 0) = PollReturn c \<longleftrightarrow>
     c = 1 \<and> (\<exists>j<3. (\<forall>a<j. poll_silent (ps a)) \<and> poll_rejected (ps j))"
proof -
  have r: "\<And>pe. poll_rejected pe \<longleftrightarrow> snd (poll pe) = PollReturn 1"
    by (simp add: poll_Return_iff)
  have c: "\<And>pe. snd (poll pe) = PollReturn c \<longleftrightarrow> c = 1 \<and> snd (poll pe) = PollReturn 1"
    using poll_Return_iff by blast
  show ?thesis
    unfolding r ex_less_3 all_less_1 all_less_2 poll_NoResponse_iff [symmetric]
    using c [of "ps 0"] c [of "ps 1"] c [of "ps 2"]
    by (auto simp add: poll_loop_0)
qed

lemma poll_loop_Throw_iff:
  "(\<exists>x. snd (poll_loop ps 0) = PollThrow x) \<longleftrightarrow>
     (\<exists>j<3. (\<forall>a<j. poll_silent (ps a)) \<and> poll_raises (ps j))"
  unfolding ex_less_3 all_less_1 all_less_2 poll_NoResponse_iff [symmetric]
    poll_Throw_iff [symmetric]
  by (auto simp add: poll_loop_0)

lemma attempt_Failed_iff: "snd (attempt ae) = AttemptFailed \<longleftrightarrow> attempt_silent ae"
  by (auto simp add: attempt_def attempt_silent_def poll_loop_NoResponse_iff [symmetric]
      split: sum.splits option.splits bool.splits poll_result.splits)

lemma attempt_Done_iff: "snd (attempt ae) = AttemptDone \<longleftrightarrow> attempt_valid ae"
  by (auto simp add: attempt_def attempt_valid_def poll_loop_Responded_iff [symmetric]
      split: sum.splits option.splits bool.splits poll_result.splits)

lemma attempt_Return_iff:
  "snd (attempt ae) = AttemptReturn c \<longleftrightarrow> c = 1 \<and> attempt_aborted ae"
proof (cases "a_connect ae")
  case (Inl x)
  then show ?thesis by (auto simp add: attempt_def attempt_aborted_def)
next
  case (Inr b)
  show ?thesis
  proof (cases "b \<and> a_writePacket ae = None")
    case False
    with Inr show ?thesis
      by (auto simp add: attempt_def attempt_aborted_def split: bool.splits)
  next
    case True
    have t: "(\<exists>j<3. (\<forall>a<j. poll_silent (a_polls ae a)) \<and>
               (poll_rejected (a_polls ae j) \<or> poll_raises (a_polls ae j))) \<longleftrightarrow>
             snd (poll_loop (a_polls ae) 0) = PollReturn 1 \<or>
             (\<exists>x. snd (poll_loop (a_polls ae) 0) = PollThrow x)"
      unfolding poll_loop_Return_iff poll_loop_Throw_iff by blast
    have r: "\<And>d. snd (poll_loop (a_polls ae) 0) = PollReturn d \<Longrightarrow> d = 1"
      by (simp add: poll_loop_Return_iff)
    from True Inr show ?thesis
      unfolding attempt_aborted_def t
      by (auto simp add: attempt_def dest: r split: poll_result.splits)
  qed
qed


lemma connect_loop_2:
  "connect_loop envs 2 =
    (fst (attempt (envs 2)),
     case snd (attempt (envs 2)) of
       AttemptReturn c \<Rightarrow> ConnectReturn c
     | AttemptDone \<Rightarrow> Connected
     | AttemptFailed \<Rightarrow> ConnectReturn 1)"
  using connect_loop.simps [of envs 2] by (simp split: attempt_result.splits)

lemma connect_loop_1:
  "connect_loop envs (Suc 0) =
    (case snd (attempt (envs (Suc 0))) of
       AttemptReturn c \<Rightarrow> (fst (attempt (envs (Suc 0))), ConnectReturn c)
     | AttemptDone \<Rightarrow> (fst (attempt (envs (Suc 0))), Connected)
     | AttemptFailed \<Rightarrow>
         (fst (attempt (envs (Suc 0))) @ fst (connect_loop envs 2), snd (connect_loop envs 2)))"
  using connect_loop.simps [of envs "Suc 0"]
  by (simp add: numeral_2_eq_2 numeral_3_eq_3 split: attempt_result.splits)

lemma connect_loop_0:
  "connect_loop envs 0 =
    (case snd (attempt (envs 0)) of
       AttemptReturn c \<Rightarrow> (fst (attempt (envs 0)), ConnectReturn c)
     | AttemptDone \<Rightarrow> (fst (attempt (envs 0)), Connected)
     | AttemptFailed \<Rightarrow>
         (fst (attempt (envs 0)) @ fst (connect_loop envs (Suc 0)), snd (connect_loop envs (Suc 0))))"
  using connect_loop.simps [of envs 0]
  by (simp split: attempt_result.splits)

lemma attempt_result_cases:
  "attempt_silent ae \<or> attempt_valid ae \<or> attempt_aborted ae"
  using attempt_Failed_iff [of ae] attempt_Done_iff [of ae] attempt_Return_iff [of ae]
  by (cases "snd (attempt ae)") auto

lemma attempt_result_of:
  "snd (attempt ae) =
    (if attempt_silent ae then AttemptFailed
     else if attempt_valid ae then AttemptDone else AttemptReturn 1)"
  using attempt_Failed_iff [of ae] attempt_Done_iff [of ae] attempt_Return_iff [of ae]
  by (cases "snd (attempt ae)") auto

lemma attempt_silent_not_valid: "attempt_silent ae \<Longrightarrow> \<not> attempt_valid ae"
  using attempt_Failed_iff [of ae] attempt_Done_iff [of ae] by auto

lemma connect_loop_Connected_iff:
  "snd (connect_loop envs 0) = Connected \<longleftrightarrow>
     (\<exists>k<3. (\<forall>i<k. attempt_silent (envs i)) \<and> attempt_valid (envs k))"
  unfolding ex_less_3 all_less_1 all_less_2
  by (auto simp add: connect_loop_0 connect_loop_1 connect_loop_2 attempt_result_of
        dest: attempt_silent_not_valid)

lemma connect_loop_exhausted:
  assumes "\<forall>i<3. attempt_silent (envs i)"
  shows "connect_loop envs 0 =
    (fst (attempt (envs 0)) @ fst (attempt (envs (Suc 0))) @ fst (attempt (envs 2)), ConnectReturn 1)"
  using assms unfolding all_less_3
  by (simp add: connect_loop_0 connect_loop_1 connect_loop_2 attempt_result_of)

lemma connect_loop_total:
  "snd (connect_loop envs 0) = Connected \<or> snd (connect_loop envs 0) = ConnectReturn 1"
  by (simp add: connect_loop_0 connect_loop_1 connect_loop_2 attempt_result_of)

lemma poll_waits:
  "count_list (fst (poll pe)) GetSocketFd = 1 \<and> count_list (fst (poll pe)) Connect = 0 \<and>
   sum_list (map wait_usec (fst (poll pe))) \<le> 1000000 \<and>
   (\<forall>x\<in>set (fst (poll pe)). wait_usec x = 0 \<or> wait_usec x = 1000000)"
  by (simp add: poll_def split: sum.splits option.splits bool.splits)

lemma poll_loop_waits:
  "count_list (fst (poll_loop ps 0)) GetSocketFd \<le> 3 \<and>
   count_list (fst (poll_loop ps 0)) Connect = 0 \<and>
   sum_list (map wait_usec (fst (poll_loop ps 0))) \<le> 3000000 \<and>
   (\<forall>x\<in>set (fst (poll_loop ps 0)). wait_usec x = 0 \<or> wait_usec x = 1000000)"
  using poll_waits [of "ps 0"] poll_waits [of "ps 1"] poll_waits [of "ps 2"]
  by (auto simp add: poll_loop_0)

lemma attempt_waits:
  "count_list (fst (attempt ae)) GetSocketFd \<le> 3 \<and>
   count_list (fst (attempt ae)) Connect = 1 \<and>
   sum_list (map wait_usec (fst (attempt ae))) \<le> 3000000 \<and>
   (\<forall>x\<in>set (fst (attempt ae)). wait_usec x = 0 \<or> wait_usec x = 1000000)"
  using poll_loop_waits [of "a_polls ae"]
  by (auto simp add: attempt_def split: sum.splits option.splits bool.splits)

lemma main_exit_of_connect:
  assumes "valid_args a" and "w_construct w = None"
    and "snd (connect_loop (w_attempts w) 0) = ConnectReturn c"
  shows "et_client_main a w = (AddLoggerFlag # fst (connect_loop (w_attempts w) 0), Some c)"
  using assms by (auto simp add: et_client_main_def valid_args_def)


text \<open>
  Claim C3, handshake bounded retry, as amended. The handshake is left with a live
  connection exactly when one of the first three outer attempts delivers a valid,
  error-free initial response and every attempt before it ended without a response.
  When three outer attempts each end without a response, it fails with \<open>return 1\<close>, and
  its trace is the three attempts' traces and nothing else: no delay is added between
  attempts. It always ends, connected or with \<open>return 1\<close>. Within any attempt the
  descriptor is polled at most 3 times, every wait (the \<open>select\<close> timeout, or the sleep
  on an invalid descriptor) is of 1 second, at most 3 seconds in all. A \<open>return 1\<close> of the
  connect loop is the exit code 1 of \<open>et_client_main\<close>.
  The claim's "failure exactly when 3 outer attempts each end without a valid response"
  does not hold: a rejected response or an exception fails the handshake at once (C4).
\<close>

theorem handshake_bounded_retry:
  "(snd (connect_loop envs 0) = Connected \<longleftrightarrow>
      (\<exists>k<3. (\<forall>i<k. attempt_silent (envs i)) \<and> attempt_valid (envs k))) \<and>
   ((\<forall>i<3. attempt_silent (envs i)) \<longrightarrow>
      connect_loop envs 0 =
        (fst (attempt (envs 0)) @ fst (attempt (envs (Suc 0))) @ fst (attempt (envs 2)),
         ConnectReturn 1)) \<and>
   (snd (connect_loop envs 0) = Connected \<or> snd (connect_loop envs 0) = ConnectReturn 1) \<and>
   count_list (fst (attempt ae)) GetSocketFd \<le> 3 \<and>
   sum_list (map wait_usec (fst (attempt ae))) \<le> 3000000 \<and>
   (\<forall>x\<in>set (fst (attempt ae)). wait_usec x = 0 \<or> wait_usec x = 1000000) \<and>
   (valid_args a \<and> w_construct w = None \<and>
    snd (connect_loop (w_attempts w) 0) = ConnectReturn 1 \<longrightarrow>
      snd (et_client_main a w) = Some 1)"
  using connect_loop_Connected_iff [of envs] connect_loop_exhausted [of envs]
    connect_loop_total [of envs] attempt_waits [of ae] main_exit_of_connect [of a w 1]
  by simp

text \<open>The concrete attempts are what their names say.\<close>

lemma silent_poll_silent: "poll_silent silent_poll"
  by (simp add: poll_silent_def silent_poll_def)

lemma slow_attempt_silent: "attempt_silent slow_attempt"
  by (simp add: attempt_silent_def slow_attempt_def silent_poll_silent)

lemma good_attempt_valid: "attempt_valid good_attempt"
  by (simp add: attempt_valid_def good_attempt_def ex_less_3 all_less_1 all_less_2
      silent_poll_silent poll_valid_def valid_poll_def)

lemma example_args_valid: "valid_args example_args"
  by (simp add: valid_args_def example_args_def)

text \<open>
  A valid response at the second poll of the third attempt connects; three attempts
  without a response give exit code 1.
\<close>

theorem handshake_bounded_retry_witness:
  "snd (connect_loop (\<lambda>n. if n = 2 then good_attempt else slow_attempt) 0) = Connected \<and>
   connect_loop (\<lambda>n. slow_attempt) 0 =
     (fst (attempt slow_attempt) @ fst (attempt slow_attempt) @ fst (attempt slow_attempt),
      ConnectReturn 1) \<and>
   snd (et_client_main example_args (world_of (\<lambda>n. slow_attempt) [])) = Some 1"
  using handshake_bounded_retry
      [of "\<lambda>n. if n = 2 then good_attempt else slow_attempt" slow_attempt example_args
        "world_of (\<lambda>n. slow_attempt) []"]
    handshake_bounded_retry
      [of "\<lambda>n. slow_attempt" slow_attempt example_args "world_of (\<lambda>n. slow_attempt) []"]
  by (simp add: ex_less_3 all_less_1 all_less_2 slow_attempt_silent good_attempt_valid
      example_args_valid world_of_def)

text \<open>
  The handshake fails after a single outer attempt, and that attempt did not end without
  a response: it read a packet of the wrong kind.
\<close>

theorem handshake_failure_counterexample:
  "connect_loop (\<lambda>n. wrong_kind_attempt) 0 =
     ([Connect, WritePacket (Packet INITIAL_PAYLOAD (InitialPayload False)), GetSocketFd,
       Select {7} 1000000, ReadPacket],
      ConnectReturn 1) \<and>
   \<not> attempt_silent wrong_kind_attempt"
  by (simp add: connect_loop_0 attempt_def wrong_kind_attempt_def poll_loop_0 poll_def
      wrong_kind_poll_def attempt_Failed_iff [symmetric])


text \<open>Where the loops stop.\<close>

lemma upt_0_1: "[0..<Suc 0] = [0]"
  by simp

lemma upt_0_2: "[0..<Suc (Suc 0)] = [0, Suc 0]"
  by (simp add: upt_rec)

lemma upt_0_3: "[0..<3] = [0, Suc 0, 2]"
  by (simp add: upt_rec numeral_2_eq_2 numeral_3_eq_3)

lemma poll_loop_stops:
  assumes "j < 3" and "\<forall>a<j. poll_silent (ps a)" and "\<not> poll_silent (ps j)"
  shows "poll_loop ps 0 = (concat (map (\<lambda>a. fst (poll (ps a))) [0..<Suc j]), snd (poll (ps j)))"
  using assms unfolding less_3_cases poll_NoResponse_iff [symmetric]
  by (auto simp add: poll_loop_0 upt_0_1 upt_0_2 upt_0_3 all_less_2 simp del: upt_Suc)

lemma connect_loop_stops:
  assumes "k < 3" and "\<forall>i<k. attempt_silent (envs i)" and "attempt_aborted (envs k)"
  shows "connect_loop envs 0 =
    (concat (map (\<lambda>i. fst (attempt (envs i))) [0..<Suc k]), ConnectReturn 1)"
proof -
  have r: "snd (attempt (envs k)) = AttemptReturn 1"
    using assms(3) by (simp add: attempt_Return_iff)
  have s: "\<forall>i<k. snd (attempt (envs i)) = AttemptFailed"
    using assms(2) by (simp add: attempt_Failed_iff)
  from assms(1) r s show ?thesis
    unfolding less_3_cases
    by (auto simp add: connect_loop_0 connect_loop_1 connect_loop_2 upt_0_1 upt_0_2 upt_0_3
        all_less_2 simp del: upt_Suc)
qed

lemma count_Connect_attempts:
  "count_list (concat (map (\<lambda>i. fst (attempt (envs i))) [0..<n])) Connect = n"
  by (induction n) (simp_all add: attempt_waits)

text \<open>
  Claim C4, handshake immediate terminal failure. When a poll, after silent polls, reads
  a response whose kind is not the initial-response kind, or one of that kind that
  carries an error, or when something throws during the poll, the \<open>for\<close> loop stops at
  that poll. When an outer attempt, after attempts that ended without a response, is
  aborted this way (or by an exception of \<open>connect\<close> or \<open>writePacket\<close>), the connect loop
  returns 1 at once: its trace ends with that attempt, so no further attempt is
  made (\<open>connect\<close> is called once per attempt made), and \<open>et_client_main\<close> returns 1.
\<close>

theorem handshake_immediate_failure:
  "(j < 3 \<and> (\<forall>a<j. poll_silent (ps a)) \<and> (poll_rejected (ps j) \<or> poll_raises (ps j)) \<longrightarrow>
      fst (poll_loop ps 0) = concat (map (\<lambda>a. fst (poll (ps a))) [0..<Suc j]) \<and>
      (snd (poll_loop ps 0) = PollReturn 1 \<or> (\<exists>x. snd (poll_loop ps 0) = PollThrow x))) \<and>
   (k < 3 \<and> (\<forall>i<k. attempt_silent (envs i)) \<and> attempt_aborted (envs k) \<longrightarrow>
      snd (connect_loop envs 0) = ConnectReturn 1 \<and>
      fst (connect_loop envs 0) = concat (map (\<lambda>i. fst (attempt (envs i))) [0..<Suc k]) \<and>
      count_list (fst (connect_loop envs 0)) Connect = Suc k \<and>
      (valid_args a \<and> w_construct w = None \<and> w_attempts w = envs \<longrightarrow>
         snd (et_client_main a w) = Some 1))"
proof (intro conjI impI)
  assume p: "j < 3 \<and> (\<forall>a<j. poll_silent (ps a)) \<and> (poll_rejected (ps j) \<or> poll_raises (ps j))"
  then have n: "\<not> poll_silent (ps j)"
    using poll_silent_not [of "ps j"] by blast
  from p n have l: "poll_loop ps 0 =
      (concat (map (\<lambda>a. fst (poll (ps a))) [0..<Suc j]), snd (poll (ps j)))"
    by (intro poll_loop_stops) simp_all
  from l show "fst (poll_loop ps 0) = concat (map (\<lambda>a. fst (poll (ps a))) [0..<Suc j])"
    by simp
  from l have "snd (poll_loop ps 0) = snd (poll (ps j))"
    by simp
  with p show "snd (poll_loop ps 0) = PollReturn 1 \<or> (\<exists>x. snd (poll_loop ps 0) = PollThrow x)"
    using poll_Return_iff [of "ps j" 1] poll_Throw_iff [of "ps j"] by auto
next
  assume q: "k < 3 \<and> (\<forall>i<k. attempt_silent (envs i)) \<and> attempt_aborted (envs k)"
  then have c: "connect_loop envs 0 =
      (concat (map (\<lambda>i. fst (attempt (envs i))) [0..<Suc k]), ConnectReturn 1)"
    by (intro connect_loop_stops) simp_all
  from c show "snd (connect_loop envs 0) = ConnectReturn 1"
    by simp
  from c show "fst (connect_loop envs 0) = concat (map (\<lambda>i. fst (attempt (envs i))) [0..<Suc k])"
    by simp
  from c show "count_list (fst (connect_loop envs 0)) Connect = Suc k"
    using count_Connect_attempts [of envs "Suc k"] by simp
  assume "valid_args a \<and> w_construct w = None \<and> w_attempts w = envs"
  with c show "snd (et_client_main a w) = Some 1"
    using main_exit_of_connect [of a w 1] by simp
qed

lemma error_poll_rejected: "poll_rejected error_poll"
  by (simp add: poll_rejected_def error_poll_def)

lemma error_attempt_aborted: "attempt_aborted error_attempt"
  by (simp add: attempt_aborted_def error_attempt_def ex_less_3 all_less_1 all_less_2
      silent_poll_silent error_poll_rejected)

text \<open>
  An embedded error at the second poll of the second attempt: two polls, two calls of
  \<open>connect\<close>, exit code 1.
\<close>

theorem handshake_immediate_failure_witness:
  "fst (poll_loop (\<lambda>a. if a = Suc 0 then error_poll else silent_poll) 0) =
     [GetSocketFd, Select {7} 1000000, GetSocketFd, Select {7} 1000000, ReadPacket] \<and>
   snd (poll_loop (\<lambda>a. if a = Suc 0 then error_poll else silent_poll) 0) = PollReturn 1 \<and>
   snd (connect_loop (\<lambda>n. if n = 0 then slow_attempt else error_attempt) 0) = ConnectReturn 1 \<and>
   count_list (fst (connect_loop (\<lambda>n. if n = 0 then slow_attempt else error_attempt) 0)) Connect
     = 2 \<and>
   snd (et_client_main example_args
          (world_of (\<lambda>n. if n = 0 then slow_attempt else error_attempt) [])) = Some 1"
  using handshake_immediate_failure
      [of "Suc 0" "\<lambda>a. if a = Suc 0 then error_poll else silent_poll" "Suc 0"
        "\<lambda>n. if n = 0 then slow_attempt else error_attempt" example_args
        "world_of (\<lambda>n. if n = 0 then slow_attempt else error_attempt) []"]
  by (simp add: silent_poll_silent error_poll_rejected slow_attempt_silent
      error_attempt_aborted example_args_valid world_of_def poll_def silent_poll_def
      error_poll_def poll_loop_0 attempt_waits)

subsection \<open>The parts of a tick\<close>

lemma and_then_Next [simp]: "and_then (tr, Next st) f = (tr @ fst (f st), snd (f st))"
  by (simp add: and_then_def)

lemma and_then_Break [simp]: "and_then (tr, Break) f = (tr, Break)"
  by (simp add: and_then_def)

lemma and_then_Throw [simp]: "and_then (tr, Throw x) f = (tr, Throw x)"
  by (simp add: and_then_def)

lemma fst_and_then:
  "fst (and_then r f) = (case snd r of Next st \<Rightarrow> fst r @ fst (f st) | _ \<Rightarrow> fst r)"
  by (simp add: and_then_def split: flow.splits)

lemma snd_and_then:
  "snd (and_then r f) = (case snd r of Next st \<Rightarrow> snd (f st) | _ \<Rightarrow> snd r)"
  by (simp add: and_then_def split: flow.splits)

lemma fst_call [simp]: "fst (call e a st) = [a]"
  by (simp add: call_def split: option.splits)

lemma snd_call:
  "snd (call e a st) = (case t_raises e a of Some x \<Rightarrow> Throw x | None \<Rightarrow> Next st)"
  by (simp add: call_def split: option.splits)

lemma write_loop_positive:
  "(\<forall>j. 0 < rcs j) \<Longrightarrow> output_on fd (write_loop fd rcs s written k) = drop written s"
proof (induction fd rcs s written k rule: write_loop.induct)
  case (1 fd rcs s written k)
  show ?case
  proof (cases "written < length s")
    case False
    then show ?thesis by (simp add: write_loop.simps [of fd rcs s written k] output_on_def)
  next
    case True
    have p: "0 < rcs k" using "1.prems" by simp
    then have np: "\<not> rcs k \<le> 0" by simp
    have "output_on fd (write_loop fd rcs s (written + nat (rcs k)) (Suc k)) =
        drop (written + nat (rcs k)) s"
      using "1.IH" [OF True np "1.prems"] .
    then have "output_on fd (write_loop fd rcs s written k) =
        take (nat (rcs k)) (drop written s) @ drop (written + nat (rcs k)) s"
      using True p by (simp add: write_loop.simps [of fd rcs s written k] output_on_def)
    also have "\<dots> = drop written s"
      by (metis add.commute append_take_drop_id drop_drop)
    finally show ?thesis .
  qed
qed

lemma write_loop_prefix:
  "\<exists>n. output_on fd (write_loop fd rcs s written k) = take n (drop written s)"
proof (induction fd rcs s written k rule: write_loop.induct)
  case (1 fd rcs s written k)
  show ?case
  proof (cases "written < length s \<and> 0 < rcs k")
    case False
    then have "output_on fd (write_loop fd rcs s written k) = take 0 (drop written s)"
      by (auto simp add: write_loop.simps [of fd rcs s written k] output_on_def)
    then show ?thesis by blast
  next
    case True
    then obtain n where n: "output_on fd (write_loop fd rcs s (written + nat (rcs k)) (Suc k)) =
        take n (drop (written + nat (rcs k)) s)"
      using "1.IH" by fastforce
    have "output_on fd (write_loop fd rcs s written k) =
        take (nat (rcs k)) (drop written s) @ take n (drop (nat (rcs k)) (drop written s))"
      using True n by (simp add: write_loop.simps [of fd rcs s written k] output_on_def add.commute)
    also have "\<dots> = take (nat (rcs k) + n) (drop written s)"
      by (simp add: take_add)
    finally show ?thesis by blast
  qed
qed

lemma write_loop_server: "\<forall>x\<in>set (write_loop fd rcs s written k). \<exists>b rc. x = SysWrite fd b rc"
proof (induction fd rcs s written k rule: write_loop.induct)
  case (1 fd rcs s written k)
  then show ?case
    by (cases "written < length s \<and> 0 < rcs k")
      (auto simp add: write_loop.simps [of fd rcs s written k])
qed

lemma filter_none: "(\<And>x. x \<in> set tr \<Longrightarrow> \<not> Q x) \<Longrightarrow> filter Q tr = []"
  by (simp add: filter_empty_conv)

lemma filter_all: "(\<And>x. x \<in> set tr \<Longrightarrow> Q x) \<Longrightarrow> filter Q tr = tr"
  by (simp add: filter_id_conv)

lemma action_classes:
  "input_action x \<Longrightarrow> \<not> server_action x \<and> \<not> keepalive_action x \<and> \<not> geometry_action x"
  "server_action x \<Longrightarrow> \<not> input_action x \<and> \<not> keepalive_action x \<and> \<not> geometry_action x"
  "keepalive_action x \<Longrightarrow> \<not> input_action x \<and> \<not> server_action x \<and> \<not> geometry_action x"
  "geometry_action x \<Longrightarrow> \<not> input_action x \<and> \<not> server_action x \<and> \<not> keepalive_action x"
  by (induction x rule: input_action.induct; simp)+

lemma input_phase_actions: "x \<in> set (fst (input_phase cfg e rfd st)) \<Longrightarrow> input_action x"
  by (auto simp add: input_phase_def fst_and_then snd_call split: if_splits option.splits)

lemma input_phase_filters:
  "filter input_action (fst (input_phase cfg e rfd st)) = fst (input_phase cfg e rfd st)"
  "filter server_action (fst (input_phase cfg e rfd st)) = []"
  "filter keepalive_action (fst (input_phase cfg e rfd st)) = []"
  "filter geometry_action (fst (input_phase cfg e rfd st)) = []"
  using input_phase_actions [of _ cfg e rfd st] action_classes(1)
  by (blast intro: filter_all filter_none)+

lemma input_phase_state:
  "snd (input_phase cfg e rfd st) = Next st' \<Longrightarrow>
     lastTerminalInfo st' = lastTerminalInfo st \<and>
     waitingOnKeepalive st' = waitingOnKeepalive st"
  by (auto simp add: input_phase_def snd_and_then snd_call split: if_splits option.splits)

lemma input_phase_idle: "inFd cfg \<notin> rfd \<Longrightarrow> input_phase cfg e rfd st = ([], Next st)"
  by (simp add: input_phase_def)

lemma write_loop_actions: "x \<in> set (write_loop fd rcs s written k) \<Longrightarrow> server_action x"
  using write_loop_server [of fd rcs s written k] by fastforce

lemma dispatch_actions: "x \<in> set (fst (dispatch cfg p st)) \<Longrightarrow> server_action x"
  by (auto simp add: dispatch_def write_loop_actions split: packet_type.splits sum.splits)

lemma dispatch_state:
  "snd (dispatch cfg p st) = Next st' \<Longrightarrow> lastTerminalInfo st' = lastTerminalInfo st"
  by (auto simp add: dispatch_def split: packet_type.splits sum.splits)

lemma drain_actions: "x \<in> set (fst (drain cfg rs st)) \<Longrightarrow> server_action x"
proof (induction cfg rs st rule: drain.induct)
  case (5 cfg p rest st)
  then show ?case
    using dispatch_actions [of x cfg p st]
    by (auto simp add: fst_and_then split: flow.splits)
qed auto

lemma drain_state:
  "snd (drain cfg rs st) = Next st' \<Longrightarrow> lastTerminalInfo st' = lastTerminalInfo st"
proof (induction cfg rs st rule: drain.induct)
  case (5 cfg p rest st)
  then show ?case
    using dispatch_state [of cfg p st]
    by (auto simp add: snd_and_then split: flow.splits)
qed simp_all

lemma server_phase_actions:
  "x \<in> set (fst (server_phase cfg e clientFd rfd st)) \<Longrightarrow> server_action x"
  using drain_actions [of x cfg "t_inbound e" st]
  by (auto simp add: server_phase_def split: if_splits)

lemma server_phase_filters:
  "filter input_action (fst (server_phase cfg e clientFd rfd st)) = []"
  "filter server_action (fst (server_phase cfg e clientFd rfd st)) =
     fst (server_phase cfg e clientFd rfd st)"
  "filter keepalive_action (fst (server_phase cfg e clientFd rfd st)) = []"
  "filter geometry_action (fst (server_phase cfg e clientFd rfd st)) = []"
  using server_phase_actions [of _ cfg e clientFd rfd st] action_classes(2)
  by (blast intro: filter_all filter_none)+

lemma server_phase_state:
  "snd (server_phase cfg e clientFd rfd st) = Next st' \<Longrightarrow>
     lastTerminalInfo st' = lastTerminalInfo st"
  using drain_state [of cfg "t_inbound e" st st']
  by (auto simp add: server_phase_def split: if_splits)

lemma server_phase_skipped:
  "\<not> (0 < clientFd \<and> clientFd \<in> rfd) \<Longrightarrow> server_phase cfg e clientFd rfd st = ([], Next st)"
  by (auto simp add: server_phase_def)

lemma keepalive_phase_actions:
  "x \<in> set (fst (keepalive_phase cfg e clientFd st)) \<Longrightarrow> keepalive_action x"
  by (auto simp add: keepalive_phase_def fst_and_then snd_call split: if_splits option.splits)

lemma keepalive_phase_filters:
  "filter input_action (fst (keepalive_phase cfg e clientFd st)) = []"
  "filter server_action (fst (keepalive_phase cfg e clientFd st)) = []"
  "filter keepalive_action (fst (keepalive_phase cfg e clientFd st)) =
     fst (keepalive_phase cfg e clientFd st)"
  "filter geometry_action (fst (keepalive_phase cfg e clientFd st)) = []"
  using keepalive_phase_actions [of _ cfg e clientFd st] action_classes(3)
  by (blast intro: filter_all filter_none)+

lemma keepalive_phase_state:
  "snd (keepalive_phase cfg e clientFd st) = Next st' \<Longrightarrow>
     lastTerminalInfo st' = lastTerminalInfo st"
  by (auto simp add: keepalive_phase_def snd_and_then snd_call split: if_splits option.splits)

lemma keepalive_phase_skipped:
  "\<not> (0 < clientFd \<and> keepaliveTime st < t_now_check e) \<Longrightarrow>
     keepalive_phase cfg e clientFd st = ([], Next st)"
  by (auto simp add: keepalive_phase_def)

lemma invalid_fd_phase_eq:
  "invalid_fd_phase clientFd st =
     ([], Next (if clientFd < 0 then st\<lparr>waitingOnKeepalive := False\<rparr> else st))"
  by (simp add: invalid_fd_phase_def)

lemma geometry_phase_trace:
  "fst (geometry_phase e st) =
     (if observe (t_ws e) \<noteq> lastTerminalInfo st
      then [WritePacket (Packet TERMINAL_INFO (TerminalInfo (observe (t_ws e))))] else [])"
  by (cases "lastTerminalInfo st") (auto simp add: geometry_phase_def observe_def)

lemma geometry_phase_actions: "x \<in> set (fst (geometry_phase e st)) \<Longrightarrow> geometry_action x"
  by (auto simp add: geometry_phase_trace split: if_splits)

lemma geometry_phase_filters:
  "filter input_action (fst (geometry_phase e st)) = []"
  "filter server_action (fst (geometry_phase e st)) = []"
  "filter keepalive_action (fst (geometry_phase e st)) = []"
  "filter geometry_action (fst (geometry_phase e st)) = fst (geometry_phase e st)"
  using geometry_phase_actions [of _ e st] action_classes(4)
  by (blast intro: filter_all filter_none)+

lemma geometry_phase_state:
  "snd (geometry_phase e st) = Next st' \<Longrightarrow>
     lastTerminalInfo st' = observe (t_ws e) \<and>
     keepaliveTime st' = keepaliveTime st \<and>
     waitingOnKeepalive st' = waitingOnKeepalive st"
  by (cases "lastTerminalInfo st")
    (auto simp add: geometry_phase_def observe_def snd_call split: if_splits option.splits)

lemma and_then_skip: "and_then r (\<lambda>st. ([], Next st)) = r"
  by (cases r) (simp add: and_then_def split: flow.splits)

lemma and_then_NextD:
  assumes "snd (and_then r f) = Next st'"
  shows "\<exists>st1. snd r = Next st1 \<and> snd (f st1) = Next st' \<and>
           fst (and_then r f) = fst r @ fst (f st1)"
  using assms by (cases "snd r") (simp_all add: and_then_def)

lemma try_body_NextD:
  assumes "snd (try_body cfg e fd rfd st) = Next st'"
  shows "\<exists>st1 st2 st3.
    snd (input_phase cfg e rfd st) = Next st1 \<and>
    snd (server_phase cfg e fd rfd st1) = Next st2 \<and>
    snd (keepalive_phase cfg e fd st2) = Next st3 \<and>
    snd (geometry_phase e (if fd < 0 then st3\<lparr>waitingOnKeepalive := False\<rparr> else st3))
      = Next st' \<and>
    fst (try_body cfg e fd rfd st) =
      fst (input_phase cfg e rfd st) @ fst (server_phase cfg e fd rfd st1) @
      fst (keepalive_phase cfg e fd st2) @
      fst (geometry_phase e (if fd < 0 then st3\<lparr>waitingOnKeepalive := False\<rparr> else st3))"
proof -
  let ?a = "input_phase cfg e rfd st"
  let ?b = "and_then ?a (server_phase cfg e fd rfd)"
  let ?c = "and_then ?b (keepalive_phase cfg e fd)"
  let ?d = "and_then ?c (invalid_fd_phase fd)"
  from assms have "snd (and_then ?d (geometry_phase e)) = Next st'"
    by (simp add: try_body_def)
  from and_then_NextD [OF this] obtain st4 where
    d: "snd ?d = Next st4" and g: "snd (geometry_phase e st4) = Next st'" and
    t: "fst (try_body cfg e fd rfd st) = fst ?d @ fst (geometry_phase e st4)"
    by (auto simp add: try_body_def)
  from and_then_NextD [OF d] obtain st3 where
    c: "snd ?c = Next st3" and i: "snd (invalid_fd_phase fd st3) = Next st4" and
    td: "fst ?d = fst ?c @ fst (invalid_fd_phase fd st3)"
    by auto
  from and_then_NextD [OF c] obtain st2 where
    b: "snd ?b = Next st2" and k: "snd (keepalive_phase cfg e fd st2) = Next st3" and
    tc: "fst ?c = fst ?b @ fst (keepalive_phase cfg e fd st2)"
    by auto
  from and_then_NextD [OF b] obtain st1 where
    a: "snd ?a = Next st1" and s: "snd (server_phase cfg e fd rfd st1) = Next st2" and
    tb: "fst ?b = fst ?a @ fst (server_phase cfg e fd rfd st1)"
    by auto
  from i have st4: "st4 = (if fd < 0 then st3\<lparr>waitingOnKeepalive := False\<rparr> else st3)"
    by (simp add: invalid_fd_phase_eq)
  from a s k g t td tc tb st4 show ?thesis
    by (simp add: invalid_fd_phase_eq)
qed

lemma try_body_input:
  "filter input_action (fst (try_body cfg e fd rfd st)) = fst (input_phase cfg e rfd st)"
  by (simp add: try_body_def fst_and_then snd_and_then input_phase_filters
      server_phase_filters keepalive_phase_filters geometry_phase_filters invalid_fd_phase_eq
      split: flow.splits)

lemma try_body_no_transport:
  assumes "\<not> 0 < fd"
  shows "try_body cfg e fd rfd st =
    and_then (and_then (input_phase cfg e rfd st) (invalid_fd_phase fd)) (geometry_phase e)"
proof -
  have "server_phase cfg e fd rfd = (\<lambda>st. ([], Next st))"
    using assms by (simp add: server_phase_skipped fun_eq_iff)
  moreover have "keepalive_phase cfg e fd = (\<lambda>st. ([], Next st))"
    using assms by (simp add: keepalive_phase_skipped fun_eq_iff)
  ultimately show ?thesis
    by (simp add: try_body_def and_then_skip)
qed

lemma try_body_no_transport_filters:
  assumes "\<not> 0 < fd"
  shows "filter server_action (fst (try_body cfg e fd rfd st)) = []"
    and "filter keepalive_action (fst (try_body cfg e fd rfd st)) = []"
  by (simp_all add: try_body_no_transport [OF assms] fst_and_then snd_and_then
      input_phase_filters geometry_phase_filters invalid_fd_phase_eq split: flow.splits)

lemma tick_running:
  assumes "t_isShuttingDown e = Inr False" and "t_getSocketFd e = Inr fd"
  shows "tick cfg e st =
    (IsShuttingDown # GetSocketFd # Select (watched cfg fd) 10000 #
       fst (try_body cfg e fd (watched cfg fd \<inter> t_readable e) st),
     case snd (try_body cfg e fd (watched cfg fd \<inter> t_readable e) st) of
       Next st' \<Rightarrow> Again st'
     | Break \<Rightarrow> Leave
     | Throw RuntimeError \<Rightarrow> Leave
     | Throw OtherException \<Rightarrow> Escape OtherException)"
  using assms by (simp add: tick_def)

lemma tick_AgainD:
  assumes "snd (tick cfg e st) = Again st'"
  shows "\<exists>fd. t_isShuttingDown e = Inr False \<and> t_getSocketFd e = Inr fd \<and>
    snd (try_body cfg e fd (watched cfg fd \<inter> t_readable e) st) = Next st' \<and>
    fst (tick cfg e st) =
      IsShuttingDown # GetSocketFd # Select (watched cfg fd) 10000 #
        fst (try_body cfg e fd (watched cfg fd \<inter> t_readable e) st)"
  using assms
  by (auto simp add: tick_def split: sum.splits bool.splits flow.splits exn.splits)

lemma main_loop_append:
  "snd (main_loop cfg es st) = Running st' \<Longrightarrow>
     main_loop cfg (es @ es') st =
       (fst (main_loop cfg es st) @ fst (main_loop cfg es' st'), snd (main_loop cfg es' st'))"
  by (induction es arbitrary: st) (auto split: tick_result.splits)

lemma try_body_no_Shutdown: "Shutdown \<notin> set (fst (try_body cfg e fd rfd st))"
proof
  assume a: "Shutdown \<in> set (fst (try_body cfg e fd rfd st))"
  have "\<And>x. x \<in> set (fst (try_body cfg e fd rfd st)) \<Longrightarrow>
      input_action x \<or> server_action x \<or> keepalive_action x \<or> geometry_action x"
    using input_phase_actions server_phase_actions keepalive_phase_actions
      geometry_phase_actions
    by (fastforce simp add: try_body_def fst_and_then snd_and_then invalid_fd_phase_eq
        split: flow.splits)
  from this [OF a] show False by simp
qed

lemma tick_no_Shutdown: "Shutdown \<notin> set (fst (tick cfg e st))"
  using try_body_no_Shutdown
  by (auto simp add: tick_def split: sum.splits bool.splits)

lemma main_loop_no_Shutdown: "Shutdown \<notin> set (fst (main_loop cfg es st))"
  using tick_no_Shutdown
  by (induction es arbitrary: st) (auto split: tick_result.splits)

subsection \<open>The concrete ticks\<close>

lemma inFd_watched: "inFd cfg \<in> watched cfg fd"
  by (simp add: watched_def)

lemma example_cfg_fields:
  "inFd example_cfg = 3" "outFd example_cfg = 4" "interval example_cfg = 5"
  by (simp_all add: example_cfg_def)

lemma world_of_fields:
  "w_construct (world_of envs ticks) = None" "w_attempts (world_of envs ticks) = envs"
  "w_now_start (world_of envs ticks) = 100" "w_ticks (world_of envs ticks) = ticks"
  "w_shutdown (world_of envs ticks) = None"
  by (simp_all add: world_of_def)

lemma initial_example_state: "initial_state 100 5 = example_state"
  by (simp add: example_state_def)

lemma eof_tick_fields:
  "t_isShuttingDown eof_tick = Inr False" "t_getSocketFd eof_tick = Inr 7"
  "inFd example_cfg \<in> t_readable eof_tick" "t_read_rc eof_tick = 0"
  by (simp_all add: eof_tick_def idle_tick_def example_cfg_def)

lemma typing_tick_fields:
  "t_isShuttingDown typing_tick = Inr False" "t_getSocketFd typing_tick = Inr 7"
  "inFd example_cfg \<in> t_readable typing_tick" "t_read_rc typing_tick = 2"
  "t_read_buf typing_tick = ''ls''" "t_raises typing_tick a = None"
  "t_now_input typing_tick = 100" "t_readable typing_tick = {3}"
  by (simp_all add: typing_tick_def idle_tick_def example_cfg_def)

lemma idle_tick_eval:
  "tick example_cfg idle_tick example_state =
     ([IsShuttingDown, GetSocketFd, Select {3, 7} 10000], Again example_state)"
  by (simp add: idle_tick_def example_cfg_def example_state_def
      initial_state_def tick_def try_body_def input_phase_def server_phase_def
      keepalive_phase_def invalid_fd_phase_def geometry_phase_def observe_def watched_def
      zero_winsize_def default_TerminalInfo_def)

lemma main_loop_idle:
  "main_loop example_cfg [idle_tick] example_state =
     ([IsShuttingDown, GetSocketFd, Select {3, 7} 10000], Running example_state)"
  by (simp add: idle_tick_eval)

lemma disconnected_tick_fields:
  "t_isShuttingDown disconnected_tick = Inr False" "t_getSocketFd disconnected_tick = Inr (- 1)"
  "inFd example_cfg \<notin> t_readable disconnected_tick"
  "t_raises disconnected_tick a = None"
  by (simp_all add: disconnected_tick_def idle_tick_def example_cfg_def)

lemma disconnected_tick_eval:
  "tick example_cfg disconnected_tick (example_state\<lparr>waitingOnKeepalive := True\<rparr>) =
     ([IsShuttingDown, GetSocketFd, Select {3} 10000], Again example_state)"
  by (simp add: disconnected_tick_def idle_tick_def example_cfg_def example_state_def
      initial_state_def tick_def try_body_def input_phase_def server_phase_def
      keepalive_phase_def invalid_fd_phase_def geometry_phase_def observe_def watched_def
      zero_winsize_def default_TerminalInfo_def)

lemma ack_tick_eval:
  "tick example_cfg ack_tick example_state =
     ([IsShuttingDown, GetSocketFd, Select {3, 7} 10000, HasData, Read, HasData],
      Again example_state)"
  by (simp add: ack_tick_def ack_packet_def idle_tick_def example_cfg_def example_state_def
      initial_state_def tick_def try_body_def input_phase_def server_phase_def dispatch_def
      keepalive_phase_def invalid_fd_phase_def geometry_phase_def observe_def watched_def
      zero_winsize_def default_TerminalInfo_def)

lemma main_loop_ack:
  "main_loop example_cfg [ack_tick] example_state =
     ([IsShuttingDown, GetSocketFd, Select {3, 7} 10000, HasData, Read, HasData],
      Running example_state)"
  by (simp add: ack_tick_eval)

lemma zero_fd_tick_fields:
  "t_isShuttingDown zero_fd_tick = Inr False" "t_getSocketFd zero_fd_tick = Inr 0"
  by (simp_all add: zero_fd_tick_def idle_tick_def)

lemma zero_fd_tick_eval:
  "tick example_cfg zero_fd_tick (example_state\<lparr>waitingOnKeepalive := True\<rparr>) =
     ([IsShuttingDown, GetSocketFd, Select {3} 10000],
      Again (example_state\<lparr>waitingOnKeepalive := True\<rparr>))"
  by (simp add: zero_fd_tick_def idle_tick_def example_cfg_def example_state_def
      initial_state_def tick_def try_body_def input_phase_def server_phase_def
      keepalive_phase_def invalid_fd_phase_def geometry_phase_def observe_def watched_def
      zero_winsize_def default_TerminalInfo_def)

lemma tick_at_fields:
  "t_now_check (tick_at n) = n" "t_now_set (tick_at n) = n" "t_raises (tick_at n) a = None"
  by (simp_all add: tick_at_def idle_tick_def)


lemma example_state_fields:
  "keepaliveTime example_state = 105" "\<not> waitingOnKeepalive example_state"
  "lastTerminalInfo example_state = default_TerminalInfo"
  by (simp_all add: example_state_def initial_state_def)

lemma resized_tick_eval:
  "tick example_cfg resized_tick example_state =
     ([IsShuttingDown, GetSocketFd, Select {3, 7} 10000,
       WritePacket (Packet TERMINAL_INFO
         (TerminalInfo \<lparr>ti_row = 24, ti_column = 80, ti_width = 0, ti_height = 0\<rparr>))],
      Again (example_state\<lparr>lastTerminalInfo :=
         \<lparr>ti_row = 24, ti_column = 80, ti_width = 0, ti_height = 0\<rparr>\<rparr>))"
  by (simp add: resized_tick_def idle_tick_def example_cfg_def example_state_def
      initial_state_def tick_def try_body_def input_phase_def server_phase_def
      keepalive_phase_def invalid_fd_phase_def geometry_phase_def observe_def watched_def
      zero_winsize_def default_TerminalInfo_def call_def)

lemma resized_again_eval:
  "tick example_cfg resized_tick
       (example_state\<lparr>lastTerminalInfo :=
         \<lparr>ti_row = 24, ti_column = 80, ti_width = 0, ti_height = 0\<rparr>\<rparr>) =
     ([IsShuttingDown, GetSocketFd, Select {3, 7} 10000],
      Again (example_state\<lparr>lastTerminalInfo :=
         \<lparr>ti_row = 24, ti_column = 80, ti_width = 0, ti_height = 0\<rparr>\<rparr>))"
  by (simp add: resized_tick_def idle_tick_def example_cfg_def example_state_def
      initial_state_def tick_def try_body_def input_phase_def server_phase_def
      keepalive_phase_def invalid_fd_phase_def geometry_phase_def observe_def watched_def
      zero_winsize_def default_TerminalInfo_def call_def)

lemma resized_then_zero_eval:
  "tick example_cfg idle_tick
       (example_state\<lparr>lastTerminalInfo :=
         \<lparr>ti_row = 24, ti_column = 80, ti_width = 0, ti_height = 0\<rparr>\<rparr>) =
     ([IsShuttingDown, GetSocketFd, Select {3, 7} 10000,
       WritePacket (Packet TERMINAL_INFO
         (TerminalInfo \<lparr>ti_row = 0, ti_column = 0, ti_width = 0, ti_height = 0\<rparr>))],
      Again example_state)"
  by (simp add: idle_tick_def example_cfg_def example_state_def
      initial_state_def tick_def try_body_def input_phase_def server_phase_def
      keepalive_phase_def invalid_fd_phase_def geometry_phase_def observe_def watched_def
      zero_winsize_def default_TerminalInfo_def call_def)

lemma main_loop_resize:
  "snd (main_loop example_cfg [resized_tick, resized_tick, idle_tick] example_state) =
     Running example_state"
  by (simp add: resized_tick_eval resized_again_eval resized_then_zero_eval)

lemma observe_examples:
  "observe (t_ws resized_tick) = \<lparr>ti_row = 24, ti_column = 80, ti_width = 0, ti_height = 0\<rparr>"
  "observe (t_ws idle_tick) = \<lparr>ti_row = 0, ti_column = 0, ti_width = 0, ti_height = 0\<rparr>"
  "t_ws idle_tick = zero_winsize" "t_ws resized_tick \<noteq> zero_winsize"
  by (simp_all add: resized_tick_def idle_tick_def observe_def zero_winsize_def)

lemma failing_tick_eval:
  "tick example_cfg (failing_tick x) example_state =
     ([IsShuttingDown, GetSocketFd, Select {3, 7} 10000, SysRead 3 16384,
       WritePacket (Packet TERMINAL_BUFFER (TerminalBuffer ''ls''))],
      case x of RuntimeError \<Rightarrow> Leave | OtherException \<Rightarrow> Escape OtherException)"
  by (cases x)
    (simp_all add: failing_tick_def typing_tick_def idle_tick_def example_cfg_def
      tick_def try_body_def input_phase_def watched_def ET_BUF_SIZE_def call_def)

lemma main_loop_failing:
  "main_loop example_cfg [failing_tick x] example_state =
     ([IsShuttingDown, GetSocketFd, Select {3, 7} 10000, SysRead 3 16384,
       WritePacket (Packet TERMINAL_BUFFER (TerminalBuffer ''ls''))],
      case x of RuntimeError \<Rightarrow> LoopLeft | OtherException \<Rightarrow> Escaped OtherException)"
  by (cases x) (simp_all add: failing_tick_eval)

lemma good_connect:
  "connect_loop (\<lambda>n. good_attempt) 0 =
     ([Connect, WritePacket (Packet INITIAL_PAYLOAD (InitialPayload False)),
       GetSocketFd, Select {7} 1000000, GetSocketFd, Select {7} 1000000, ReadPacket],
      Connected)"
  by (simp add: connect_loop_0 attempt_def good_attempt_def poll_loop_0 poll_def
      silent_poll_def valid_poll_def)

lemma example_session_cfg:
  "\<lparr>inFd = the (f_in example_args), outFd = the (f_out example_args),
    interval = clamp_keepalive (keepalive_secs example_args)\<rparr> = example_cfg"
  by (simp add: example_args_def example_cfg_def clamp_keepalive_def)

subsection \<open>Data from the server\<close>

lemma drain_terminal_buffer:
  assumes "in_header p = TERMINAL_BUFFER" and "in_buffer p = Inr s"
  shows "drain cfg (ReadTrue p # rest) st =
    (HasData # Read # write_loop (outFd cfg) (in_write_rc p) s 0 0 @
       fst (drain cfg rest (st\<lparr>keepaliveTime := in_now p + interval cfg\<rparr>)),
     snd (drain cfg rest (st\<lparr>keepaliveTime := in_now p + interval cfg\<rparr>)))"
  using assms by (simp add: dispatch_def)

text \<open>
  Claim C6, terminal-data write discipline. While bytes of the payload remain, the loop
  of line 167 calls \<open>::write\<close> on the remaining unwritten suffix, stops after a call that
  returns a non-positive value and goes on after the written count grew otherwise; it
  makes no call once everything is written. What reaches the output is always a prefix
  of the payload, and the whole payload, byte for byte, when every call returns a
  positive count: \<open>hello\<close> accepted as 2 then 3 bytes is written as \<open>hello\<close> then \<open>llo\<close>.
  Whatever the calls return, a terminal-data packet resets the keepalive deadline and
  the loop of line 154 goes on with the next packet: a write error abandons the rest of
  that message only.
\<close>

theorem terminal_data_write_discipline:
  "(written < length s \<longrightarrow>
      write_loop fd rcs s written k =
        SysWrite fd (drop written s) (rcs k) #
          (if rcs k \<le> 0 then [] else write_loop fd rcs s (written + nat (rcs k)) (Suc k))) \<and>
   (\<not> written < length s \<longrightarrow> write_loop fd rcs s written k = []) \<and>
   (\<exists>n. output_on fd (write_loop fd rcs s 0 0) = take n s) \<and>
   ((\<forall>j. 0 < rcs j) \<longrightarrow> output_on fd (write_loop fd rcs s 0 0) = s) \<and>
   write_loop fd (\<lambda>j. if j = 0 then 2 else 3) ''hello'' 0 0 =
     [SysWrite fd ''hello'' 2, SysWrite fd ''llo'' 3] \<and>
   output_on fd (write_loop fd (\<lambda>j. if j = 0 then 2 else 3) ''hello'' 0 0) = ''hello'' \<and>
   (in_header p = TERMINAL_BUFFER \<and> in_buffer p = Inr s \<longrightarrow>
      drain cfg (ReadTrue p # rest) st =
        (HasData # Read # write_loop (outFd cfg) (in_write_rc p) s 0 0 @
           fst (drain cfg rest (st\<lparr>keepaliveTime := in_now p + interval cfg\<rparr>)),
         snd (drain cfg rest (st\<lparr>keepaliveTime := in_now p + interval cfg\<rparr>))))"
proof (intro conjI impI)
  show "write_loop fd (\<lambda>j. if j = 0 then 2 else 3) ''hello'' 0 0 =
      [SysWrite fd ''hello'' 2, SysWrite fd ''llo'' 3]"
    by (simp add: write_loop.simps)
  then show "output_on fd (write_loop fd (\<lambda>j. if j = 0 then 2 else 3) ''hello'' 0 0) = ''hello''"
    by (simp add: output_on_def)
  show "\<exists>n. output_on fd (write_loop fd rcs s 0 0) = take n s"
    using write_loop_prefix [of fd rcs s 0 0] by simp
next
  assume "\<forall>j. 0 < rcs j"
  then show "output_on fd (write_loop fd rcs s 0 0) = s"
    using write_loop_positive [of rcs fd s 0 0] by simp
next
  assume "in_header p = TERMINAL_BUFFER \<and> in_buffer p = Inr s"
  then show "drain cfg (ReadTrue p # rest) st =
        (HasData # Read # write_loop (outFd cfg) (in_write_rc p) s 0 0 @
           fst (drain cfg rest (st\<lparr>keepaliveTime := in_now p + interval cfg\<rparr>)),
         snd (drain cfg rest (st\<lparr>keepaliveTime := in_now p + interval cfg\<rparr>)))"
    using drain_terminal_buffer [of p s cfg rest st] by blast
qed (simp_all add: write_loop.simps [of fd rcs s written k])

text \<open>
  A write error after 2 bytes of \<open>hello\<close>: no further write, and the keepalive packet that
  follows is still dispatched.
\<close>

theorem terminal_data_write_discipline_witness:
  "write_loop 4 (\<lambda>j. if j = 0 then 2 else - 1) ''hello'' 2 1 = [SysWrite 4 ''llo'' (- 1)] \<and>
   write_loop 4 (\<lambda>j. 1) ''hello'' 5 5 = [] \<and>
   output_on 4 (write_loop 4 (\<lambda>j. 1) ''hello'' 0 0) = ''hello'' \<and>
   drain example_cfg
       [ReadTrue (hello_packet (\<lambda>j. if j = 0 then 2 else - 1)), ReadTrue ack_packet]
       (example_state\<lparr>waitingOnKeepalive := True\<rparr>) =
     ([HasData, Read, SysWrite 4 ''hello'' 2, SysWrite 4 ''llo'' (- 1), HasData, Read, HasData],
      Next (example_state\<lparr>keepaliveTime := 106, waitingOnKeepalive := False\<rparr>))"
  using terminal_data_write_discipline
      [of 2 "''hello''" 4 "\<lambda>j. if j = 0 then 2 else - 1" 1
        "hello_packet (\<lambda>j. if j = 0 then 2 else - 1)" example_cfg "[ReadTrue ack_packet]"
        "example_state\<lparr>waitingOnKeepalive := True\<rparr>"]
    terminal_data_write_discipline [of 5 "''hello''" 4 "\<lambda>j. 1" 5]
  by (simp add: write_loop.simps hello_packet_def ack_packet_def example_cfg_def dispatch_def
      example_state_def initial_state_def)

subsection \<open>Local input\<close>

lemma tick_input_closed:
  assumes "t_isShuttingDown e = Inr False" and "t_getSocketFd e = Inr fd"
    and "inFd cfg \<in> t_readable e" and "t_read_rc e \<le> 0"
  shows "tick cfg e st =
    ([IsShuttingDown, GetSocketFd, Select (watched cfg fd) 10000,
      SysRead (inFd cfg) ET_BUF_SIZE], Leave)"
  using assms
  by (simp add: tick_running [OF assms(1,2)] try_body_def input_phase_def inFd_watched)

lemma tick_filter_input:
  assumes "t_isShuttingDown e = Inr False" and "t_getSocketFd e = Inr fd"
  shows "filter input_action (fst (tick cfg e st)) =
    fst (input_phase cfg e (watched cfg fd \<inter> t_readable e) st)"
  by (simp add: tick_running [OF assms] try_body_input)

lemma input_phase_forward:
  assumes "inFd cfg \<in> rfd" and "0 < t_read_rc e"
  shows "fst (input_phase cfg e rfd st) =
      [SysRead (inFd cfg) ET_BUF_SIZE,
       WritePacket (Packet TERMINAL_BUFFER
         (TerminalBuffer (take (nat (t_read_rc e)) (t_read_buf e))))]"
    and "t_raises e (WritePacket (Packet TERMINAL_BUFFER
           (TerminalBuffer (take (nat (t_read_rc e)) (t_read_buf e))))) = None \<Longrightarrow>
         snd (input_phase cfg e rfd st) =
           Next (st\<lparr>keepaliveTime := t_now_input e + interval cfg\<rparr>)"
  using assms
  by (simp_all add: input_phase_def fst_and_then snd_and_then snd_call split: option.splits)

lemma main_loop_leaves:
  assumes "snd (main_loop cfg pre st0) = Running st" and "snd (tick cfg e st) = Leave"
  shows "main_loop cfg (pre @ e # rest) st0 =
    (fst (main_loop cfg pre st0) @ fst (tick cfg e st), LoopLeft)"
  using assms by (simp add: main_loop_append)

lemma session_left:
  assumes "snd (main_loop cfg (w_ticks w) (initial_state (w_now_start w) (interval cfg))) =
    LoopLeft"
  shows "fst (session cfg w) =
      fst (main_loop cfg (w_ticks w) (initial_state (w_now_start w) (interval cfg))) @ [Shutdown]"
    and "snd (session cfg w) = (case w_shutdown w of None \<Rightarrow> Some 0 | Some x \<Rightarrow> Some 1)"
    and "count_list (fst (session cfg w)) Shutdown = 1"
  using assms main_loop_no_Shutdown [of cfg "w_ticks w"
      "initial_state (w_now_start w) (interval cfg)"]
  by (auto simp add: session_def count_list_0_iff split: option.splits)

text \<open>
  Claim C7, local-input handling. On a tick that finds the local input readable, one
  \<open>::read\<close> of up to 16384 bytes is made. When it returns a non-positive value the tick
  ends there and leaves the loop; in a run, the loop is left at that tick and
  \<open>shutdown\<close> is called exactly once, as the last call. When it returns \<open>n > 0\<close>, the
  calls of the tick that concern the local input are that read and one \<open>writePacket\<close>
  of a terminal-data message that carries the first \<open>n\<close> bytes of the buffer, and, the
  packet once written, the keepalive deadline is the clock reading of line 149 plus the
  interval.
\<close>

theorem local_input_handling:
  assumes "t_isShuttingDown e = Inr False" and "t_getSocketFd e = Inr fd"
    and "inFd cfg \<in> t_readable e"
  shows "ET_BUF_SIZE = 16384 \<and>
   (t_read_rc e \<le> 0 \<longrightarrow>
      tick cfg e st =
        ([IsShuttingDown, GetSocketFd, Select (watched cfg fd) 10000,
          SysRead (inFd cfg) ET_BUF_SIZE], Leave)) \<and>
   (t_read_rc e \<le> 0 \<and> snd (main_loop cfg pre st0) = Running st \<longrightarrow>
      main_loop cfg (pre @ e # rest) st0 =
        (fst (main_loop cfg pre st0) @
           [IsShuttingDown, GetSocketFd, Select (watched cfg fd) 10000,
            SysRead (inFd cfg) ET_BUF_SIZE], LoopLeft)) \<and>
   (t_read_rc e \<le> 0 \<and> w_ticks w = pre @ e # rest \<and>
    snd (main_loop cfg pre (initial_state (w_now_start w) (interval cfg))) = Running st \<longrightarrow>
      count_list (fst (session cfg w)) Shutdown = 1 \<and>
      last (fst (session cfg w)) = Shutdown \<and>
      snd (session cfg w) = (case w_shutdown w of None \<Rightarrow> Some 0 | Some x \<Rightarrow> Some 1)) \<and>
   (0 < t_read_rc e \<longrightarrow>
      filter input_action (fst (tick cfg e st)) =
        [SysRead (inFd cfg) ET_BUF_SIZE,
         WritePacket (Packet TERMINAL_BUFFER
           (TerminalBuffer (take (nat (t_read_rc e)) (t_read_buf e))))] \<and>
      (nat (t_read_rc e) \<le> length (t_read_buf e) \<longrightarrow>
         length (take (nat (t_read_rc e)) (t_read_buf e)) = nat (t_read_rc e)) \<and>
      (t_raises e (WritePacket (Packet TERMINAL_BUFFER
           (TerminalBuffer (take (nat (t_read_rc e)) (t_read_buf e))))) = None \<longrightarrow>
         snd (input_phase cfg e (watched cfg fd \<inter> t_readable e) st) =
           Next (st\<lparr>keepaliveTime := t_now_input e + interval cfg\<rparr>)))"
proof -
  have r: "inFd cfg \<in> watched cfg fd \<inter> t_readable e"
    using assms(3) by (simp add: inFd_watched)
  have closed: "\<And>st. t_read_rc e \<le> 0 \<Longrightarrow> tick cfg e st =
      ([IsShuttingDown, GetSocketFd, Select (watched cfg fd) 10000,
        SysRead (inFd cfg) ET_BUF_SIZE], Leave)"
    using assms by (simp add: tick_input_closed)
  have run: "\<And>pre st0. t_read_rc e \<le> 0 \<Longrightarrow> snd (main_loop cfg pre st0) = Running st \<Longrightarrow>
      main_loop cfg (pre @ e # rest) st0 =
        (fst (main_loop cfg pre st0) @
           [IsShuttingDown, GetSocketFd, Select (watched cfg fd) 10000,
            SysRead (inFd cfg) ET_BUF_SIZE], LoopLeft)"
    using main_loop_leaves [of cfg _ _ st e rest] closed [of st] by simp
  have sess: "t_read_rc e \<le> 0 \<and> w_ticks w = pre @ e # rest \<and>
      snd (main_loop cfg pre (initial_state (w_now_start w) (interval cfg))) = Running st \<Longrightarrow>
      count_list (fst (session cfg w)) Shutdown = 1 \<and>
      last (fst (session cfg w)) = Shutdown \<and>
      snd (session cfg w) = (case w_shutdown w of None \<Rightarrow> Some 0 | Some x \<Rightarrow> Some 1)"
  proof -
    assume a: "t_read_rc e \<le> 0 \<and> w_ticks w = pre @ e # rest \<and>
      snd (main_loop cfg pre (initial_state (w_now_start w) (interval cfg))) = Running st"
    then have "snd (main_loop cfg (w_ticks w) (initial_state (w_now_start w) (interval cfg))) =
        LoopLeft"
      using run [of pre "initial_state (w_now_start w) (interval cfg)"] by simp
    from session_left [OF this] show ?thesis by simp
  qed
  show ?thesis
    using closed [of st] run [of pre st0] sess tick_filter_input [OF assms(1,2), of cfg st]
      input_phase_forward [OF r, where st = st]
    by (simp add: ET_BUF_SIZE_def)
qed

text \<open>End of input on the second tick of a run, and two bytes typed.\<close>

theorem local_input_handling_witness:
  "tick example_cfg eof_tick example_state =
     ([IsShuttingDown, GetSocketFd, Select {3, 7} 10000, SysRead 3 16384], Leave) \<and>
   main_loop example_cfg [idle_tick, eof_tick] example_state =
     ([IsShuttingDown, GetSocketFd, Select {3, 7} 10000,
       IsShuttingDown, GetSocketFd, Select {3, 7} 10000, SysRead 3 16384], LoopLeft) \<and>
   count_list
     (fst (session example_cfg (world_of (\<lambda>n. good_attempt) [idle_tick, eof_tick])))
     Shutdown = 1 \<and>
   snd (session example_cfg (world_of (\<lambda>n. good_attempt) [idle_tick, eof_tick])) = Some 0 \<and>
   filter input_action (fst (tick example_cfg typing_tick example_state)) =
     [SysRead 3 16384, WritePacket (Packet TERMINAL_BUFFER (TerminalBuffer ''ls''))] \<and>
   snd (input_phase example_cfg typing_tick ({3, 7} \<inter> {3}) example_state) =
     Next (example_state\<lparr>keepaliveTime := 105\<rparr>)"
proof -
  note closed = local_input_handling
      [OF eof_tick_fields(1,2,3), of example_state "[idle_tick]" example_state "[]"
        "world_of (\<lambda>n. good_attempt) [idle_tick, eof_tick]"]
  note typed = local_input_handling [OF typing_tick_fields(1,2,3), of example_state]
  have rc: "t_read_rc eof_tick \<le> 0"
    by (simp add: eof_tick_fields)
  have run: "t_read_rc eof_tick \<le> 0 \<and>
      snd (main_loop example_cfg [idle_tick] example_state) = Running example_state"
    by (simp add: eof_tick_fields main_loop_idle del: main_loop.simps)
  have sess: "t_read_rc eof_tick \<le> 0 \<and>
    w_ticks (world_of (\<lambda>n. good_attempt) [idle_tick, eof_tick]) = [idle_tick] @ eof_tick # [] \<and>
    snd (main_loop example_cfg [idle_tick]
      (initial_state (w_now_start (world_of (\<lambda>n. good_attempt) [idle_tick, eof_tick]))
         (interval example_cfg))) = Running example_state"
    by (simp add: eof_tick_fields world_of_fields example_cfg_fields initial_example_state
        main_loop_idle del: main_loop.simps)
  have a: "tick example_cfg eof_tick example_state =
     ([IsShuttingDown, GetSocketFd, Select {3, 7} 10000, SysRead 3 16384], Leave)"
    using closed [THEN conjunct2, THEN conjunct1, rule_format, OF rc]
    by (simp add: example_cfg_fields watched_def ET_BUF_SIZE_def)
  have b: "main_loop example_cfg [idle_tick, eof_tick] example_state =
     ([IsShuttingDown, GetSocketFd, Select {3, 7} 10000,
       IsShuttingDown, GetSocketFd, Select {3, 7} 10000, SysRead 3 16384], LoopLeft)"
    using closed [THEN conjunct2, THEN conjunct2, THEN conjunct1, rule_format, OF run]
    by (simp add: example_cfg_fields main_loop_idle watched_def ET_BUF_SIZE_def
        del: main_loop.simps)
  have c: "count_list
     (fst (session example_cfg (world_of (\<lambda>n. good_attempt) [idle_tick, eof_tick])))
     Shutdown = 1 \<and>
   snd (session example_cfg (world_of (\<lambda>n. good_attempt) [idle_tick, eof_tick])) = Some 0"
    using closed [THEN conjunct2, THEN conjunct2, THEN conjunct2, THEN conjunct1, rule_format,
        OF sess]
    by (simp add: world_of_fields)
  have d: "filter input_action (fst (tick example_cfg typing_tick example_state)) =
     [SysRead 3 16384, WritePacket (Packet TERMINAL_BUFFER (TerminalBuffer ''ls''))] \<and>
   snd (input_phase example_cfg typing_tick ({3, 7} \<inter> {3}) example_state) =
     Next (example_state\<lparr>keepaliveTime := 105\<rparr>)"
    using typed
    by (simp add: typing_tick_fields example_cfg_fields watched_def ET_BUF_SIZE_def)
  from a b c d show ?thesis by blast
qed

subsection \<open>The transport descriptor\<close>

lemma and_then_then:
  "and_then (and_then r (\<lambda>s. ([], Next (g s)))) f = and_then r (\<lambda>s. f (g s))"
  by (cases r) (simp add: and_then_def split: flow.splits)

lemma try_body_invalid:
  assumes "fd < 0"
  shows "try_body cfg e fd rfd st =
    and_then (input_phase cfg e rfd st)
      (\<lambda>s. geometry_phase e (s\<lparr>waitingOnKeepalive := False\<rparr>))"
proof -
  have "invalid_fd_phase fd = (\<lambda>s. ([], Next (s\<lparr>waitingOnKeepalive := False\<rparr>)))"
    using assms by (simp add: invalid_fd_phase_eq fun_eq_iff)
  then show ?thesis
    using assms by (simp add: try_body_no_transport and_then_then)
qed

lemma try_body_zero:
  "try_body cfg e 0 rfd st = and_then (input_phase cfg e rfd st) (geometry_phase e)"
proof -
  have "invalid_fd_phase 0 = (\<lambda>s. ([], Next s))"
    by (simp add: invalid_fd_phase_eq fun_eq_iff)
  then show ?thesis
    by (simp add: try_body_no_transport and_then_skip)
qed

lemma watched_not_positive: "\<not> 0 < fd \<Longrightarrow> watched cfg fd = {inFd cfg}"
  by (simp add: watched_def)

lemma tick_not_positive_filters:
  assumes "t_isShuttingDown e = Inr False" and "t_getSocketFd e = Inr fd" and "\<not> 0 < fd"
  shows "filter server_action (fst (tick cfg e st)) = []"
    and "filter keepalive_action (fst (tick cfg e st)) = []"
  by (simp_all add: tick_running [OF assms(1,2)] try_body_no_transport_filters [OF assms(3)])

lemma server_phase_enabled:
  "0 < fd \<Longrightarrow> fd \<in> t_readable e \<Longrightarrow>
     server_phase cfg e fd (watched cfg fd \<inter> t_readable e) st = drain cfg (t_inbound e) st"
  by (simp add: server_phase_def watched_def)

text \<open>
  Claim C8, invalid-descriptor tolerance, as amended. The descriptor is invalid when it
  is negative (the test of line 198); the transport is worked on when it is positive
  (the guards of lines 127, 153 and 187); the descriptor 0 is the subject of C10. On a
  tick with a negative descriptor, \<open>select\<close> watches the local input only, and the tick
  is the handling of the local input followed by the check of the terminal size with
  the pending-probe flag cleared, and ends as these two end: there is no call of
  \<open>hasData\<close> or \<open>read\<close>, no probe and no reconnect, and nothing is raised on account of
  the descriptor. Local input is still forwarded and a new terminal size still reported
  with \<open>writePacket\<close> (lines 147 and 215 are not gated on the descriptor), and an
  exception of these calls ends the tick as on any other tick; with no local input and
  a size report that does not throw, the tick ends normally. The flag is clear after the
  tick, the loop goes on with the next tick as usual, and a later tick with a positive,
  readable descriptor watches it and drains the connection.
\<close>

theorem invalid_descriptor_tolerance:
  assumes "t_isShuttingDown e = Inr False" and "t_getSocketFd e = Inr fd" and "fd < 0"
  shows "tick cfg e st =
      (IsShuttingDown # GetSocketFd # Select {inFd cfg} 10000 #
         fst (and_then (input_phase cfg e ({inFd cfg} \<inter> t_readable e) st)
                (\<lambda>s. geometry_phase e (s\<lparr>waitingOnKeepalive := False\<rparr>))),
       case snd (and_then (input_phase cfg e ({inFd cfg} \<inter> t_readable e) st)
                   (\<lambda>s. geometry_phase e (s\<lparr>waitingOnKeepalive := False\<rparr>))) of
         Next st' \<Rightarrow> Again st'
       | Break \<Rightarrow> Leave
       | Throw RuntimeError \<Rightarrow> Leave
       | Throw OtherException \<Rightarrow> Escape OtherException) \<and>
    filter server_action (fst (tick cfg e st)) = [] \<and>
    filter keepalive_action (fst (tick cfg e st)) = [] \<and>
    (inFd cfg \<notin> t_readable e \<and>
     t_raises e (WritePacket (Packet TERMINAL_INFO (TerminalInfo (observe (t_ws e))))) = None \<longrightarrow>
       (\<exists>st'. snd (tick cfg e st) = Again st')) \<and>
    (\<forall>st'. snd (tick cfg e st) = Again st' \<longrightarrow>
       \<not> waitingOnKeepalive st' \<and>
       main_loop cfg (e # es) st =
         (fst (tick cfg e st) @ fst (main_loop cfg es st'), snd (main_loop cfg es st'))) \<and>
    (0 < fd2 \<and> fd2 \<in> t_readable e2 \<longrightarrow>
       fd2 \<in> watched cfg fd2 \<and>
       server_phase cfg e2 fd2 (watched cfg fd2 \<inter> t_readable e2) st2 =
         drain cfg (t_inbound e2) st2)"
proof -
  have neg: "\<not> 0 < fd" using assms(3) by simp
  have t: "tick cfg e st =
      (IsShuttingDown # GetSocketFd # Select {inFd cfg} 10000 #
         fst (and_then (input_phase cfg e ({inFd cfg} \<inter> t_readable e) st)
                (\<lambda>s. geometry_phase e (s\<lparr>waitingOnKeepalive := False\<rparr>))),
       case snd (and_then (input_phase cfg e ({inFd cfg} \<inter> t_readable e) st)
                   (\<lambda>s. geometry_phase e (s\<lparr>waitingOnKeepalive := False\<rparr>))) of
         Next st' \<Rightarrow> Again st'
       | Break \<Rightarrow> Leave
       | Throw RuntimeError \<Rightarrow> Leave
       | Throw OtherException \<Rightarrow> Escape OtherException)"
    by (simp add: tick_running [OF assms(1,2)] watched_not_positive [OF neg]
        try_body_invalid [OF assms(3)])
  have idle: "inFd cfg \<notin> t_readable e \<and>
     t_raises e (WritePacket (Packet TERMINAL_INFO (TerminalInfo (observe (t_ws e))))) = None \<Longrightarrow>
       \<exists>st'. snd (tick cfg e st) = Again st'"
    by (simp add: t input_phase_idle snd_and_then)
      (cases "lastTerminalInfo st", auto simp add: geometry_phase_def observe_def snd_call)
  have again: "\<And>st'. snd (tick cfg e st) = Again st' \<Longrightarrow> \<not> waitingOnKeepalive st'"
  proof -
    fix st' assume a: "snd (tick cfg e st) = Again st'"
    from tick_AgainD [OF a] assms(2)
    have "snd (try_body cfg e fd (watched cfg fd \<inter> t_readable e) st) = Next st'"
      by auto
    then have "snd (and_then (input_phase cfg e (watched cfg fd \<inter> t_readable e) st)
        (\<lambda>s. geometry_phase e (s\<lparr>waitingOnKeepalive := False\<rparr>))) = Next st'"
      by (simp add: try_body_invalid [OF assms(3)])
    from and_then_NextD [OF this] obtain s1 where
      "snd (geometry_phase e (s1\<lparr>waitingOnKeepalive := False\<rparr>)) = Next st'"
      by auto
    from geometry_phase_state [OF this] show "\<not> waitingOnKeepalive st'"
      by simp
  qed
  have loop: "\<And>st'. snd (tick cfg e st) = Again st' \<Longrightarrow>
      main_loop cfg (e # es) st =
         (fst (tick cfg e st) @ fst (main_loop cfg es st'), snd (main_loop cfg es st'))"
    by simp
  show ?thesis
    using t idle again loop tick_not_positive_filters [OF assms(1,2) neg, of cfg st]
      server_phase_enabled [of fd2 e2 cfg st2]
    by (simp add: watched_def del: main_loop.simps)
qed

text \<open>
  A tick with the descriptor -1 and a probe outstanding, then a tick with the descriptor
  7 on which a keepalive packet is read.
\<close>

theorem invalid_descriptor_tolerance_witness:
  "tick example_cfg disconnected_tick (example_state\<lparr>waitingOnKeepalive := True\<rparr>) =
     ([IsShuttingDown, GetSocketFd, Select {3} 10000], Again example_state) \<and>
   \<not> waitingOnKeepalive example_state \<and>
   main_loop example_cfg [disconnected_tick, ack_tick]
       (example_state\<lparr>waitingOnKeepalive := True\<rparr>) =
     ([IsShuttingDown, GetSocketFd, Select {3} 10000,
       IsShuttingDown, GetSocketFd, Select {3, 7} 10000, HasData, Read, HasData],
      Running example_state) \<and>
   server_phase example_cfg ack_tick 7 (watched example_cfg 7 \<inter> t_readable ack_tick)
       example_state =
     drain example_cfg (t_inbound ack_tick) example_state"
proof -
  note t = invalid_descriptor_tolerance
      [OF disconnected_tick_fields(1,2), of example_cfg
        "example_state\<lparr>waitingOnKeepalive := True\<rparr>" "[ack_tick]" 7 ack_tick example_state]
  have neg: "(- 1 :: int) < 0" by simp
  have a: "tick example_cfg disconnected_tick (example_state\<lparr>waitingOnKeepalive := True\<rparr>) =
      ([IsShuttingDown, GetSocketFd, Select {3} 10000], Again example_state)"
    using t [OF neg, THEN conjunct1]
    by (simp add: disconnected_tick_eval)
  have b: "\<not> waitingOnKeepalive example_state \<and>
      main_loop example_cfg [disconnected_tick, ack_tick]
          (example_state\<lparr>waitingOnKeepalive := True\<rparr>) =
        ([IsShuttingDown, GetSocketFd, Select {3} 10000,
          IsShuttingDown, GetSocketFd, Select {3, 7} 10000, HasData, Read, HasData],
         Running example_state)"
    using t [OF neg, THEN conjunct2, THEN conjunct2, THEN conjunct2, THEN conjunct2,
        THEN conjunct1, rule_format, of example_state]
    by (simp add: disconnected_tick_eval main_loop_ack del: main_loop.simps)
  have c: "server_phase example_cfg ack_tick 7 (watched example_cfg 7 \<inter> t_readable ack_tick)
       example_state =
     drain example_cfg (t_inbound ack_tick) example_state"
  proof -
    have rd: "0 < (7::int) \<and> 7 \<in> t_readable ack_tick"
      by (simp add: ack_tick_def idle_tick_def)
    from t [OF neg, THEN conjunct2, THEN conjunct2, THEN conjunct2, THEN conjunct2,
        THEN conjunct2, rule_format, OF rd]
    show ?thesis by blast
  qed
  from a b c show ?thesis by blast
qed

text \<open>
  A tick with the descriptor -1 on which two bytes are typed and the window is 24 by 80:
  a terminal-data message and a geometry-change message are written to the transport;
  and when \<open>writePacket\<close> throws on that tick, the loop is left.
\<close>

theorem invalid_descriptor_sends_counterexample:
  "t_getSocketFd busy_disconnected_tick = Inr (- 1) \<and>
   tick example_cfg busy_disconnected_tick example_state =
     ([IsShuttingDown, GetSocketFd, Select {3} 10000, SysRead 3 16384,
       WritePacket (Packet TERMINAL_BUFFER (TerminalBuffer ''ls'')),
       WritePacket (Packet TERMINAL_INFO
         (TerminalInfo \<lparr>ti_row = 24, ti_column = 80, ti_width = 0, ti_height = 0\<rparr>))],
      Again (example_state\<lparr>lastTerminalInfo :=
         \<lparr>ti_row = 24, ti_column = 80, ti_width = 0, ti_height = 0\<rparr>\<rparr>)) \<and>
   tick example_cfg (busy_disconnected_tick\<lparr>t_raises := (\<lambda>a. Some RuntimeError)\<rparr>)
       example_state =
     ([IsShuttingDown, GetSocketFd, Select {3} 10000, SysRead 3 16384,
       WritePacket (Packet TERMINAL_BUFFER (TerminalBuffer ''ls''))], Leave)"
  by (simp add: busy_disconnected_tick_def typing_tick_def idle_tick_def example_cfg_def
      example_state_def initial_state_def tick_def try_body_def input_phase_def
      server_phase_def keepalive_phase_def invalid_fd_phase_def geometry_phase_def observe_def
      watched_def default_TerminalInfo_def ET_BUF_SIZE_def call_def)

text \<open>
  Claim C10, the descriptor 0. The rule of lines 198-200 clears the pending-probe flag
  only when the descriptor is negative; \<open>select\<close> watches the descriptor, the connection
  is drained and the keepalive is served only when it is positive. Hence on every tick
  with the descriptor 0 there is no call of \<open>hasData\<close> or \<open>read\<close>, no probe and no
  reconnect, and a tick that ends normally leaves the flag as it was.
\<close>

theorem descriptor_zero_asymmetry:
  "invalid_fd_phase fd st =
     ([], Next (if fd < 0 then st\<lparr>waitingOnKeepalive := False\<rparr> else st)) \<and>
   watched cfg fd = (if 0 < fd then {inFd cfg, fd} else {inFd cfg}) \<and>
   (\<not> 0 < fd \<longrightarrow>
      server_phase cfg e fd rfd st = ([], Next st) \<and>
      keepalive_phase cfg e fd st = ([], Next st)) \<and>
   (t_isShuttingDown e = Inr False \<and> t_getSocketFd e = Inr 0 \<longrightarrow>
      filter server_action (fst (tick cfg e st)) = [] \<and>
      filter keepalive_action (fst (tick cfg e st)) = [] \<and>
      (\<forall>st'. snd (tick cfg e st) = Again st' \<longrightarrow>
         waitingOnKeepalive st' = waitingOnKeepalive st))"
proof -
  have z: "\<not> (0::int) < 0" by simp
  have keep: "\<And>st'. t_isShuttingDown e = Inr False \<and> t_getSocketFd e = Inr 0 \<Longrightarrow>
      snd (tick cfg e st) = Again st' \<Longrightarrow> waitingOnKeepalive st' = waitingOnKeepalive st"
  proof -
    fix st'
    assume h: "t_isShuttingDown e = Inr False \<and> t_getSocketFd e = Inr 0"
      and a: "snd (tick cfg e st) = Again st'"
    from tick_AgainD [OF a] h
    have "snd (try_body cfg e 0 (watched cfg 0 \<inter> t_readable e) st) = Next st'"
      by auto
    then have "snd (and_then (input_phase cfg e (watched cfg 0 \<inter> t_readable e) st)
        (geometry_phase e)) = Next st'"
      by (simp add: try_body_zero)
    from and_then_NextD [OF this] obtain s1 where
      i: "snd (input_phase cfg e (watched cfg 0 \<inter> t_readable e) st) = Next s1" and
      g: "snd (geometry_phase e s1) = Next st'"
      by auto
    from input_phase_state [OF i] geometry_phase_state [OF g]
    show "waitingOnKeepalive st' = waitingOnKeepalive st"
      by simp
  qed
  show ?thesis
    using keep tick_not_positive_filters [of e 0 cfg st, OF _ _ z]
    by (simp add: invalid_fd_phase_eq watched_def server_phase_skipped keepalive_phase_skipped)
qed

text \<open>
  The descriptor 0, readable, with a keepalive packet to read, the deadline passed and a
  probe outstanding: nothing is done and the flag stays set.
\<close>

theorem descriptor_zero_asymmetry_witness:
  "server_phase example_cfg zero_fd_tick 0 {0}
       (example_state\<lparr>waitingOnKeepalive := True\<rparr>) =
     ([], Next (example_state\<lparr>waitingOnKeepalive := True\<rparr>)) \<and>
   keepalive_phase example_cfg zero_fd_tick 0 (example_state\<lparr>waitingOnKeepalive := True\<rparr>) =
     ([], Next (example_state\<lparr>waitingOnKeepalive := True\<rparr>)) \<and>
   keepaliveTime (example_state\<lparr>waitingOnKeepalive := True\<rparr>) < t_now_check zero_fd_tick \<and>
   filter server_action
     (fst (tick example_cfg zero_fd_tick (example_state\<lparr>waitingOnKeepalive := True\<rparr>))) = [] \<and>
   filter keepalive_action
     (fst (tick example_cfg zero_fd_tick (example_state\<lparr>waitingOnKeepalive := True\<rparr>))) = [] \<and>
   snd (tick example_cfg zero_fd_tick (example_state\<lparr>waitingOnKeepalive := True\<rparr>)) =
     Again (example_state\<lparr>waitingOnKeepalive := True\<rparr>) \<and>
   waitingOnKeepalive (example_state\<lparr>waitingOnKeepalive := True\<rparr>)"
proof -
  note t = descriptor_zero_asymmetry
      [of 0 "example_state\<lparr>waitingOnKeepalive := True\<rparr>" example_cfg zero_fd_tick "{0}"]
  have a: "server_phase example_cfg zero_fd_tick 0 {0}
       (example_state\<lparr>waitingOnKeepalive := True\<rparr>) =
     ([], Next (example_state\<lparr>waitingOnKeepalive := True\<rparr>)) \<and>
   keepalive_phase example_cfg zero_fd_tick 0 (example_state\<lparr>waitingOnKeepalive := True\<rparr>) =
     ([], Next (example_state\<lparr>waitingOnKeepalive := True\<rparr>))"
    using t [THEN conjunct2, THEN conjunct2, THEN conjunct1] by simp
  have b: "filter server_action
     (fst (tick example_cfg zero_fd_tick (example_state\<lparr>waitingOnKeepalive := True\<rparr>))) = [] \<and>
   filter keepalive_action
     (fst (tick example_cfg zero_fd_tick (example_state\<lparr>waitingOnKeepalive := True\<rparr>))) = []"
    using t [THEN conjunct2, THEN conjunct2, THEN conjunct2] zero_fd_tick_fields by simp
  have c: "keepaliveTime (example_state\<lparr>waitingOnKeepalive := True\<rparr>) <
      t_now_check zero_fd_tick"
    by (simp add: example_state_def initial_state_def zero_fd_tick_def idle_tick_def)
  from a b c show ?thesis
    by (simp add: zero_fd_tick_eval)
qed

subsection \<open>The keepalive\<close>










subsection \<open>The terminal size\<close>

lemma observe_eq_iff:
  "observe w = ti \<longleftrightarrow>
     ti_row ti = uint (ws_row w) \<and> ti_column ti = uint (ws_col w) \<and>
     ti_width ti = uint (ws_xpixel w) \<and> ti_height ti = uint (ws_ypixel w)"
  by (cases ti) (auto simp add: observe_def)

lemma observe_default_iff: "observe w = default_TerminalInfo \<longleftrightarrow> w = zero_winsize"
  by (cases w) (auto simp add: observe_def default_TerminalInfo_def zero_winsize_def
      unsigned_eq_0_iff)

lemma tick_geometry:
  assumes "snd (tick cfg e st) = Again st'"
  shows "filter geometry_action (fst (tick cfg e st)) =
      (if observe (t_ws e) \<noteq> lastTerminalInfo st then [geometry_packet (observe (t_ws e))]
       else [])"
    and "lastTerminalInfo st' = observe (t_ws e)"
proof -
  from tick_AgainD [OF assms] obtain fd where
    b: "snd (try_body cfg e fd (watched cfg fd \<inter> t_readable e) st) = Next st'" and
    t: "fst (tick cfg e st) =
      IsShuttingDown # GetSocketFd # Select (watched cfg fd) 10000 #
        fst (try_body cfg e fd (watched cfg fd \<inter> t_readable e) st)"
    by blast
  let ?rfd = "watched cfg fd \<inter> t_readable e"
  from try_body_NextD [OF b] obtain st1 st2 st3 where
    i: "snd (input_phase cfg e ?rfd st) = Next st1" and
    s: "snd (server_phase cfg e fd ?rfd st1) = Next st2" and
    k: "snd (keepalive_phase cfg e fd st2) = Next st3" and
    g: "snd (geometry_phase e (if fd < 0 then st3\<lparr>waitingOnKeepalive := False\<rparr> else st3))
          = Next st'" and
    tr: "fst (try_body cfg e fd ?rfd st) =
      fst (input_phase cfg e ?rfd st) @ fst (server_phase cfg e fd ?rfd st1) @
      fst (keepalive_phase cfg e fd st2) @
      fst (geometry_phase e (if fd < 0 then st3\<lparr>waitingOnKeepalive := False\<rparr> else st3))"
    by blast
  let ?st4 = "if fd < 0 then st3\<lparr>waitingOnKeepalive := False\<rparr> else st3"
  have l: "lastTerminalInfo ?st4 = lastTerminalInfo st"
    using input_phase_state [OF i] server_phase_state [OF s] keepalive_phase_state [OF k]
    by simp
  show "lastTerminalInfo st' = observe (t_ws e)"
    using geometry_phase_state [OF g] by simp
  have "filter geometry_action (fst (tick cfg e st)) = fst (geometry_phase e ?st4)"
    unfolding t tr
    by (simp add: input_phase_filters server_phase_filters keepalive_phase_filters
        geometry_phase_filters)
  then show "filter geometry_action (fst (tick cfg e st)) =
      (if observe (t_ws e) \<noteq> lastTerminalInfo st then [geometry_packet (observe (t_ws e))]
       else [])"
    using l by (simp add: geometry_phase_trace geometry_packet_def)
qed

lemma main_loop_geometry:
  "snd (main_loop cfg es st) = Running st' \<Longrightarrow>
     filter geometry_action (fst (main_loop cfg es st)) =
       map geometry_packet (transitions (lastTerminalInfo st) (map (\<lambda>e. observe (t_ws e)) es))"
proof (induction es arbitrary: st)
  case Nil
  then show ?case by simp
next
  case (Cons e es)
  from Cons.prems obtain s1 where a: "snd (tick cfg e st) = Again s1"
    and r: "snd (main_loop cfg es s1) = Running st'"
    by (auto split: tick_result.splits)
  from Cons.IH [OF r] tick_geometry [OF a] a show ?case
    by simp
qed

text \<open>
  Claim C2, geometry reporting, as amended. The check of lines 203-218 writes a
  geometry-change message that carries the observed rows, columns, pixel width and pixel
  height exactly when the observation differs from the last transmitted snapshot, and
  equality is equality of all 4 fields. On a tick that runs to its end the
  geometry-change messages written are that one message or none, and the observation
  is the snapshot afterwards; over a run of ticks they are the distinct transitions of
  the observations, one message each. The snapshot the loop starts with is all zero, so
  on the first tick the observation is transmitted exactly when it is not all zero: the
  starting value is not distinct from every observation.
\<close>

theorem geometry_reporting:
  "fst (geometry_phase e st) =
     (if observe (t_ws e) \<noteq> lastTerminalInfo st then [geometry_packet (observe (t_ws e))]
      else []) \<and>
   (observe (t_ws e) = lastTerminalInfo st \<longleftrightarrow>
      ti_row (lastTerminalInfo st) = uint (ws_row (t_ws e)) \<and>
      ti_column (lastTerminalInfo st) = uint (ws_col (t_ws e)) \<and>
      ti_width (lastTerminalInfo st) = uint (ws_xpixel (t_ws e)) \<and>
      ti_height (lastTerminalInfo st) = uint (ws_ypixel (t_ws e))) \<and>
   (snd (tick cfg e st) = Again st' \<longrightarrow>
      filter geometry_action (fst (tick cfg e st)) =
        (if observe (t_ws e) \<noteq> lastTerminalInfo st then [geometry_packet (observe (t_ws e))]
         else []) \<and>
      lastTerminalInfo st' = observe (t_ws e)) \<and>
   (snd (main_loop cfg es st) = Running st'' \<longrightarrow>
      filter geometry_action (fst (main_loop cfg es st)) =
        map geometry_packet
          (transitions (lastTerminalInfo st) (map (\<lambda>e. observe (t_ws e)) es))) \<and>
   lastTerminalInfo (initial_state now k) = default_TerminalInfo \<and>
   (snd (tick cfg e (initial_state now k)) = Again st' \<longrightarrow>
      filter geometry_action (fst (tick cfg e (initial_state now k))) =
        (if t_ws e \<noteq> zero_winsize then [geometry_packet (observe (t_ws e))] else []))"
  using tick_geometry [of cfg e st st'] main_loop_geometry [of cfg es st st'']
    tick_geometry(1) [of cfg e "initial_state now k" st'] observe_eq_iff [of "t_ws e"]
  by (simp add: geometry_phase_trace geometry_packet_def initial_state_def
      observe_default_iff del: main_loop.simps)

text \<open>
  24 rows by 80 columns on the first tick, the same on the second, all zero on the third:
  two messages.
\<close>

theorem geometry_reporting_witness:
  "filter geometry_action (fst (tick example_cfg resized_tick example_state)) =
     [geometry_packet \<lparr>ti_row = 24, ti_column = 80, ti_width = 0, ti_height = 0\<rparr>] \<and>
   filter geometry_action
       (fst (main_loop example_cfg [resized_tick, resized_tick, idle_tick] example_state)) =
     [geometry_packet \<lparr>ti_row = 24, ti_column = 80, ti_width = 0, ti_height = 0\<rparr>,
      geometry_packet \<lparr>ti_row = 0, ti_column = 0, ti_width = 0, ti_height = 0\<rparr>]"
proof -
  have a: "snd (tick example_cfg resized_tick (initial_state 100 5)) =
      Again (example_state\<lparr>lastTerminalInfo :=
         \<lparr>ti_row = 24, ti_column = 80, ti_width = 0, ti_height = 0\<rparr>\<rparr>)"
    by (simp add: initial_example_state resized_tick_eval)
  have "filter geometry_action (fst (tick example_cfg resized_tick example_state)) =
     [geometry_packet \<lparr>ti_row = 24, ti_column = 80, ti_width = 0, ti_height = 0\<rparr>]"
    using geometry_reporting [where e = resized_tick and cfg = example_cfg and now = 100
          and k = 5,
        THEN conjunct2, THEN conjunct2, THEN conjunct2, THEN conjunct2, THEN conjunct2,
        rule_format, OF a]
    by (simp add: initial_example_state observe_examples)
  moreover have "filter geometry_action
       (fst (main_loop example_cfg [resized_tick, resized_tick, idle_tick] example_state)) =
     [geometry_packet \<lparr>ti_row = 24, ti_column = 80, ti_width = 0, ti_height = 0\<rparr>,
      geometry_packet \<lparr>ti_row = 0, ti_column = 0, ti_width = 0, ti_height = 0\<rparr>]"
    using geometry_reporting [where st = example_state and cfg = example_cfg
          and es = "[resized_tick, resized_tick, idle_tick]" and st'' = example_state,
        THEN conjunct2, THEN conjunct2, THEN conjunct2, THEN conjunct1,
        rule_format, OF main_loop_resize]
    by (simp add: observe_examples(1,2) example_state_fields default_TerminalInfo_def
        del: main_loop.simps)
  ultimately show ?thesis by blast
qed

text \<open>The first observation is all zero: the first tick writes no geometry-change message.\<close>

theorem geometry_first_observation_counterexample:
  "t_ws idle_tick = \<lparr>ws_row = 0, ws_col = 0, ws_xpixel = 0, ws_ypixel = 0\<rparr> \<and>
   tick example_cfg idle_tick (initial_state 100 5) =
     ([IsShuttingDown, GetSocketFd, Select {3, 7} 10000], Again (initial_state 100 5))"
  by (simp add: idle_tick_def example_cfg_def
      initial_state_def tick_def try_body_def input_phase_def server_phase_def
      keepalive_phase_def invalid_fd_phase_def geometry_phase_def observe_def watched_def
      zero_winsize_def default_TerminalInfo_def)

subsection \<open>Leaving the loop\<close>

lemma tick_result_cases:
  "snd (tick cfg e st) =
    (case t_isShuttingDown e of
       Inl x \<Rightarrow> Escape x
     | Inr True \<Rightarrow> Leave
     | Inr False \<Rightarrow>
         (case t_getSocketFd e of
            Inl x \<Rightarrow> Escape x
          | Inr fd \<Rightarrow>
              (case snd (try_body cfg e fd (watched cfg fd \<inter> t_readable e) st) of
                 Next st' \<Rightarrow> Again st'
               | Break \<Rightarrow> Leave
               | Throw RuntimeError \<Rightarrow> Leave
               | Throw OtherException \<Rightarrow> Escape OtherException)))"
  by (simp add: tick_def split: sum.splits bool.splits)

lemma main_loop_escapes:
  assumes "snd (main_loop cfg pre st0) = Running st" and "snd (tick cfg e st) = Escape x"
  shows "main_loop cfg (pre @ e # rest) st0 =
    (fst (main_loop cfg pre st0) @ fst (tick cfg e st), Escaped x)"
  using assms by (simp add: main_loop_append)

lemma session_escaped:
  assumes "snd (main_loop cfg (w_ticks w) (initial_state (w_now_start w) (interval cfg))) =
    Escaped x"
  shows "session cfg w =
      (fst (main_loop cfg (w_ticks w) (initial_state (w_now_start w) (interval cfg))), Some 1)"
    and "Shutdown \<notin> set (fst (session cfg w))"
  using assms main_loop_no_Shutdown [of cfg "w_ticks w"
      "initial_state (w_now_start w) (interval cfg)"]
  by (auto simp add: session_def)

lemma session_code:
  "snd (session cfg w) =
    (case snd (main_loop cfg (w_ticks w) (initial_state (w_now_start w) (interval cfg))) of
       Running st \<Rightarrow> None
     | Escaped x \<Rightarrow> Some 1
     | LoopLeft \<Rightarrow> (case w_shutdown w of None \<Rightarrow> Some 0 | Some x \<Rightarrow> Some 1))"
  by (simp add: session_def split: loop_result.splits option.splits)

lemma main_code:
  "snd (et_client_main a w) = None \<or> snd (et_client_main a w) = Some 0 \<or>
   snd (et_client_main a w) = Some 1"
  using connect_loop_total [of "w_attempts w"]
  by (auto simp add: et_client_main_def session_code
      split: option.splits connect_result.splits loop_result.splits)

lemma main_session:
  assumes "valid_args a" and "w_construct w = None"
    and "snd (connect_loop (w_attempts w) 0) = Connected"
  shows "et_client_main a w =
    (AddLoggerFlag # fst (connect_loop (w_attempts w) 0) @
       fst (session \<lparr>inFd = the (f_in a), outFd = the (f_out a),
                    interval = clamp_keepalive (keepalive_secs a)\<rparr> w),
     snd (session \<lparr>inFd = the (f_in a), outFd = the (f_out a),
                    interval = clamp_keepalive (keepalive_secs a)\<rparr> w))"
  using assms by (auto simp add: et_client_main_def valid_args_def)

text \<open>
  Claim C5, shutdown and fault conversion, as amended. Whenever \<open>et_client_main\<close>
  returns, it returns 0 or 1. A tick leaves the loop when the connection is shutting
  down, on the \<open>break\<close> of line 142, and when a \<open>std::runtime_error\<close> is thrown inside the
  \<open>try\<close> block of line 136; any other exception thrown there, and any exception of
  \<open>isShuttingDown\<close> or \<open>getSocketFd\<close> (lines 118 and 126, outside the block), escapes
  to the handler of line 226. In a run, the first tick that does not end normally ends
  the loop either way. When the loop is left, \<open>shutdown\<close> is called, once and last, and
  the result is 0, or 1 if \<open>shutdown\<close> throws; when an exception escapes, \<open>shutdown\<close> is not
  called and the result is 1. After a successful handshake the run is this session.
\<close>

theorem shutdown_and_fault_conversion:
  "(snd (et_client_main a w) = None \<or> snd (et_client_main a w) = Some 0 \<or>
    snd (et_client_main a w) = Some 1) \<and>
   snd (tick cfg e st) =
     (case t_isShuttingDown e of
        Inl x \<Rightarrow> Escape x
      | Inr True \<Rightarrow> Leave
      | Inr False \<Rightarrow>
          (case t_getSocketFd e of
             Inl x \<Rightarrow> Escape x
           | Inr fd \<Rightarrow>
               (case snd (try_body cfg e fd (watched cfg fd \<inter> t_readable e) st) of
                  Next st' \<Rightarrow> Again st'
                | Break \<Rightarrow> Leave
                | Throw RuntimeError \<Rightarrow> Leave
                | Throw OtherException \<Rightarrow> Escape OtherException))) \<and>
   (snd (main_loop cfg pre st0) = Running st \<and> snd (tick cfg e st) = Leave \<longrightarrow>
      main_loop cfg (pre @ e # rest) st0 =
        (fst (main_loop cfg pre st0) @ fst (tick cfg e st), LoopLeft)) \<and>
   (snd (main_loop cfg pre st0) = Running st \<and> snd (tick cfg e st) = Escape x \<longrightarrow>
      main_loop cfg (pre @ e # rest) st0 =
        (fst (main_loop cfg pre st0) @ fst (tick cfg e st), Escaped x)) \<and>
   (snd (main_loop cfg (w_ticks w) (initial_state (w_now_start w) (interval cfg))) = LoopLeft
      \<longrightarrow>
      fst (session cfg w) =
        fst (main_loop cfg (w_ticks w) (initial_state (w_now_start w) (interval cfg))) @
          [Shutdown] \<and>
      count_list (fst (session cfg w)) Shutdown = 1 \<and>
      snd (session cfg w) = (case w_shutdown w of None \<Rightarrow> Some 0 | Some x \<Rightarrow> Some 1)) \<and>
   (snd (main_loop cfg (w_ticks w) (initial_state (w_now_start w) (interval cfg))) = Escaped x
      \<longrightarrow>
      Shutdown \<notin> set (fst (session cfg w)) \<and> snd (session cfg w) = Some 1) \<and>
   (valid_args a \<and> w_construct w = None \<and>
    snd (connect_loop (w_attempts w) 0) = Connected \<longrightarrow>
      et_client_main a w =
        (AddLoggerFlag # fst (connect_loop (w_attempts w) 0) @
           fst (session \<lparr>inFd = the (f_in a), outFd = the (f_out a),
                        interval = clamp_keepalive (keepalive_secs a)\<rparr> w),
         snd (session \<lparr>inFd = the (f_in a), outFd = the (f_out a),
                        interval = clamp_keepalive (keepalive_secs a)\<rparr> w)))"
proof (intro conjI impI)
  show "snd (et_client_main a w) = None \<or> snd (et_client_main a w) = Some 0 \<or>
    snd (et_client_main a w) = Some 1"
    by (rule main_code)
  show "snd (tick cfg e st) =
     (case t_isShuttingDown e of
        Inl x \<Rightarrow> Escape x
      | Inr True \<Rightarrow> Leave
      | Inr False \<Rightarrow>
          (case t_getSocketFd e of
             Inl x \<Rightarrow> Escape x
           | Inr fd \<Rightarrow>
               (case snd (try_body cfg e fd (watched cfg fd \<inter> t_readable e) st) of
                  Next st' \<Rightarrow> Again st'
                | Break \<Rightarrow> Leave
                | Throw RuntimeError \<Rightarrow> Leave
                | Throw OtherException \<Rightarrow> Escape OtherException)))"
    by (rule tick_result_cases)
next
  assume "snd (main_loop cfg pre st0) = Running st \<and> snd (tick cfg e st) = Leave"
  then show "main_loop cfg (pre @ e # rest) st0 =
        (fst (main_loop cfg pre st0) @ fst (tick cfg e st), LoopLeft)"
    using main_loop_leaves [of cfg pre st0 st e rest] by blast
next
  assume "snd (main_loop cfg pre st0) = Running st \<and> snd (tick cfg e st) = Escape x"
  then show "main_loop cfg (pre @ e # rest) st0 =
        (fst (main_loop cfg pre st0) @ fst (tick cfg e st), Escaped x)"
    using main_loop_escapes [of cfg pre st0 st e x rest] by blast
next
  assume l: "snd (main_loop cfg (w_ticks w) (initial_state (w_now_start w) (interval cfg))) =
    LoopLeft"
  from session_left [OF l]
  show "fst (session cfg w) =
        fst (main_loop cfg (w_ticks w) (initial_state (w_now_start w) (interval cfg))) @
          [Shutdown]"
    and "count_list (fst (session cfg w)) Shutdown = 1"
    and "snd (session cfg w) = (case w_shutdown w of None \<Rightarrow> Some 0 | Some x \<Rightarrow> Some 1)"
    by simp_all
next
  assume x: "snd (main_loop cfg (w_ticks w) (initial_state (w_now_start w) (interval cfg))) =
    Escaped x"
  from session_escaped [OF x]
  show "Shutdown \<notin> set (fst (session cfg w))" and "snd (session cfg w) = Some 1"
    by simp_all
next
  assume "valid_args a \<and> w_construct w = None \<and>
    snd (connect_loop (w_attempts w) 0) = Connected"
  then show "et_client_main a w =
        (AddLoggerFlag # fst (connect_loop (w_attempts w) 0) @
           fst (session \<lparr>inFd = the (f_in a), outFd = the (f_out a),
                        interval = clamp_keepalive (keepalive_secs a)\<rparr> w),
         snd (session \<lparr>inFd = the (f_in a), outFd = the (f_out a),
                        interval = clamp_keepalive (keepalive_secs a)\<rparr> w))"
    using main_session [of a w] by blast
qed

text \<open>
  \<open>writePacket\<close> throws while local input is forwarded: a \<open>std::runtime_error\<close> ends the
  run with \<open>shutdown\<close> and 0, another exception with 1 and no \<open>shutdown\<close>.
\<close>

theorem shutdown_and_fault_conversion_witness:
  "main_loop example_cfg [idle_tick, failing_tick RuntimeError] example_state =
     ([IsShuttingDown, GetSocketFd, Select {3, 7} 10000,
       IsShuttingDown, GetSocketFd, Select {3, 7} 10000, SysRead 3 16384,
       WritePacket (Packet TERMINAL_BUFFER (TerminalBuffer ''ls''))], LoopLeft) \<and>
   main_loop example_cfg [idle_tick, failing_tick OtherException] example_state =
     ([IsShuttingDown, GetSocketFd, Select {3, 7} 10000,
       IsShuttingDown, GetSocketFd, Select {3, 7} 10000, SysRead 3 16384,
       WritePacket (Packet TERMINAL_BUFFER (TerminalBuffer ''ls''))],
      Escaped OtherException) \<and>
   session example_cfg (world_of (\<lambda>n. good_attempt) [failing_tick RuntimeError]) =
     ([IsShuttingDown, GetSocketFd, Select {3, 7} 10000, SysRead 3 16384,
       WritePacket (Packet TERMINAL_BUFFER (TerminalBuffer ''ls'')), Shutdown], Some 0) \<and>
   Shutdown \<notin>
     set (fst (session example_cfg (world_of (\<lambda>n. good_attempt) [failing_tick OtherException])))
   \<and>
   snd (session example_cfg (world_of (\<lambda>n. good_attempt) [failing_tick OtherException])) =
     Some 1 \<and>
   snd (et_client_main example_args (world_of (\<lambda>n. good_attempt) [failing_tick RuntimeError]))
     = Some 0"
proof -
  note t = shutdown_and_fault_conversion
  have h1: "snd (main_loop example_cfg [idle_tick] example_state) = Running example_state \<and>
      snd (tick example_cfg (failing_tick RuntimeError) example_state) = Leave"
    by (simp add: main_loop_idle failing_tick_eval del: main_loop.simps)
  have a: "main_loop example_cfg [idle_tick, failing_tick RuntimeError] example_state =
     ([IsShuttingDown, GetSocketFd, Select {3, 7} 10000,
       IsShuttingDown, GetSocketFd, Select {3, 7} 10000, SysRead 3 16384,
       WritePacket (Packet TERMINAL_BUFFER (TerminalBuffer ''ls''))], LoopLeft)"
    using t [where cfg = example_cfg and pre = "[idle_tick]" and ?st0.0 = example_state
          and st = example_state and e = "failing_tick RuntimeError" and rest = "[]",
        THEN conjunct2, THEN conjunct2, THEN conjunct1, rule_format, OF h1]
    by (simp add: main_loop_idle failing_tick_eval del: main_loop.simps)
  have h2: "snd (main_loop example_cfg [idle_tick] example_state) = Running example_state \<and>
      snd (tick example_cfg (failing_tick OtherException) example_state) =
        Escape OtherException"
    by (simp add: main_loop_idle failing_tick_eval del: main_loop.simps)
  have b: "main_loop example_cfg [idle_tick, failing_tick OtherException] example_state =
     ([IsShuttingDown, GetSocketFd, Select {3, 7} 10000,
       IsShuttingDown, GetSocketFd, Select {3, 7} 10000, SysRead 3 16384,
       WritePacket (Packet TERMINAL_BUFFER (TerminalBuffer ''ls''))],
      Escaped OtherException)"
    using t [where cfg = example_cfg and pre = "[idle_tick]" and ?st0.0 = example_state
          and st = example_state and e = "failing_tick OtherException" and rest = "[]"
          and x = OtherException,
        THEN conjunct2, THEN conjunct2, THEN conjunct2, THEN conjunct1, rule_format, OF h2]
    by (simp add: main_loop_idle failing_tick_eval del: main_loop.simps)
  have h3: "snd (main_loop example_cfg
        (w_ticks (world_of (\<lambda>n. good_attempt) [failing_tick RuntimeError]))
        (initial_state (w_now_start (world_of (\<lambda>n. good_attempt) [failing_tick RuntimeError]))
           (interval example_cfg))) = LoopLeft"
    by (simp add: world_of_fields example_cfg_fields initial_example_state main_loop_failing
        del: main_loop.simps)
  have c: "session example_cfg (world_of (\<lambda>n. good_attempt) [failing_tick RuntimeError]) =
     ([IsShuttingDown, GetSocketFd, Select {3, 7} 10000, SysRead 3 16384,
       WritePacket (Packet TERMINAL_BUFFER (TerminalBuffer ''ls'')), Shutdown], Some 0)"
    using t [where cfg = example_cfg
          and w = "world_of (\<lambda>n. good_attempt) [failing_tick RuntimeError]",
        THEN conjunct2, THEN conjunct2, THEN conjunct2, THEN conjunct2, THEN conjunct1,
        rule_format, OF h3]
    by (simp add: world_of_fields example_cfg_fields initial_example_state main_loop_failing
        prod_eq_iff del: main_loop.simps)
  have h4: "snd (main_loop example_cfg
        (w_ticks (world_of (\<lambda>n. good_attempt) [failing_tick OtherException]))
        (initial_state (w_now_start (world_of (\<lambda>n. good_attempt) [failing_tick OtherException]))
           (interval example_cfg))) = Escaped OtherException"
    by (simp add: world_of_fields example_cfg_fields initial_example_state main_loop_failing
        del: main_loop.simps)
  have d: "Shutdown \<notin>
     set (fst (session example_cfg (world_of (\<lambda>n. good_attempt) [failing_tick OtherException])))
   \<and>
   snd (session example_cfg (world_of (\<lambda>n. good_attempt) [failing_tick OtherException])) =
     Some 1"
    using t [where cfg = example_cfg and x = OtherException
          and w = "world_of (\<lambda>n. good_attempt) [failing_tick OtherException]",
        THEN conjunct2, THEN conjunct2, THEN conjunct2, THEN conjunct2, THEN conjunct2,
        THEN conjunct1, rule_format, OF h4]
    by blast
  have h5: "valid_args example_args \<and>
      w_construct (world_of (\<lambda>n. good_attempt) [failing_tick RuntimeError]) = None \<and>
      snd (connect_loop (w_attempts (world_of (\<lambda>n. good_attempt) [failing_tick RuntimeError])) 0)
        = Connected"
    by (simp add: example_args_valid world_of_fields good_connect)
  have e: "snd (et_client_main example_args
        (world_of (\<lambda>n. good_attempt) [failing_tick RuntimeError])) = Some 0"
    using t [where a = example_args
          and w = "world_of (\<lambda>n. good_attempt) [failing_tick RuntimeError]",
        THEN conjunct2, THEN conjunct2, THEN conjunct2, THEN conjunct2, THEN conjunct2,
        THEN conjunct2, rule_format, OF h5] c
    by (simp add: example_session_cfg)
  from a b c d e show ?thesis by blast
qed

text \<open>
  After a successful handshake, \<open>writePacket\<close> throws an exception that is not a
  \<open>std::runtime_error\<close> on the first tick: the function returns 1 and \<open>shutdown\<close> is never
  called.
\<close>

theorem shutdown_skipped_counterexample:
  "et_client_main example_args (world_of (\<lambda>n. good_attempt) [failing_tick OtherException]) =
     ([AddLoggerFlag, Connect, WritePacket (Packet INITIAL_PAYLOAD (InitialPayload False)),
       GetSocketFd, Select {7} 1000000, GetSocketFd, Select {7} 1000000, ReadPacket,
       IsShuttingDown, GetSocketFd, Select {3, 7} 10000, SysRead 3 16384,
       WritePacket (Packet TERMINAL_BUFFER (TerminalBuffer ''ls''))],
      Some 1)"
proof -
  have "session example_cfg (world_of (\<lambda>n. good_attempt) [failing_tick OtherException]) =
     ([IsShuttingDown, GetSocketFd, Select {3, 7} 10000, SysRead 3 16384,
       WritePacket (Packet TERMINAL_BUFFER (TerminalBuffer ''ls''))], Some 1)"
    by (simp add: session_def world_of_fields example_cfg_fields initial_example_state
        main_loop_failing del: main_loop.simps)
  then show ?thesis
    using main_session [of example_args
        "world_of (\<lambda>n. good_attempt) [failing_tick OtherException]"]
    by (simp add: example_args_valid world_of_fields good_connect example_session_cfg)
qed

subsection \<open>The entry point\<close>

lemma session_unfold:
  "session cfg w =
    (case snd (main_loop cfg (w_ticks w) (initial_state (w_now_start w) (interval cfg))) of
       Running st \<Rightarrow>
         (fst (main_loop cfg (w_ticks w) (initial_state (w_now_start w) (interval cfg))), None)
     | Escaped x \<Rightarrow>
         (fst (main_loop cfg (w_ticks w) (initial_state (w_now_start w) (interval cfg))), Some 1)
     | LoopLeft \<Rightarrow>
         (fst (main_loop cfg (w_ticks w) (initial_state (w_now_start w) (interval cfg)))
            @ [Shutdown],
          case w_shutdown w of Some x \<Rightarrow> Some 1 | None \<Rightarrow> Some 0))"
  by (simp add: session_def)

lemma input_phase_deadline:
  "inFd cfg \<in> rfd \<Longrightarrow> snd (input_phase cfg e rfd st) = Next st' \<Longrightarrow>
     keepaliveTime st' = t_now_input e + interval cfg"
  by (auto simp add: input_phase_def snd_and_then snd_call split: if_splits option.splits)

lemma dispatch_deadline:
  "in_header p = TERMINAL_BUFFER \<Longrightarrow> snd (dispatch cfg p st) = Next st' \<Longrightarrow>
     keepaliveTime st' = in_now p + interval cfg"
  by (auto simp add: dispatch_def split: sum.splits)

lemma keepalive_phase_deadline:
  "0 < fd \<Longrightarrow> keepaliveTime st < t_now_check e \<Longrightarrow>
     snd (keepalive_phase cfg e fd st) = Next st' \<Longrightarrow>
     keepaliveTime st' = t_now_set e + interval cfg"
  by (auto simp add: keepalive_phase_def snd_and_then snd_call split: if_splits option.splits)

lemma input_phase_reading:
  "snd (input_phase cfg e rfd st) = Next st' \<Longrightarrow>
     keepaliveTime st' = keepaliveTime st \<or>
     keepaliveTime st' = t_now_input e + interval cfg"
  by (auto simp add: input_phase_def snd_and_then snd_call split: if_splits option.splits)

lemma dispatch_reading:
  "snd (dispatch cfg p st) = Next st' \<Longrightarrow>
     keepaliveTime st' = keepaliveTime st \<or> keepaliveTime st' = in_now p + interval cfg"
  by (auto simp add: dispatch_def split: packet_type.splits sum.splits)

lemma drain_reading:
  "snd (drain cfg rs st) = Next st' \<Longrightarrow>
     keepaliveTime st' = keepaliveTime st \<or>
     keepaliveTime st' - interval cfg \<in> set (concat (map recv_now rs))"
proof (induction cfg rs st rule: drain.induct)
  case (5 cfg p rest st)
  from "5.prems" obtain s1 where
    d: "snd (dispatch cfg p st) = Next s1" and r: "snd (drain cfg rest s1) = Next st'"
    by (auto simp add: snd_and_then split: flow.splits)
  from dispatch_reading [OF d] "5.IH" [OF r] show ?case
    by auto
qed auto

lemma server_phase_reading:
  "snd (server_phase cfg e fd rfd st) = Next st' \<Longrightarrow>
     keepaliveTime st' = keepaliveTime st \<or> keepaliveTime st' - interval cfg \<in> readings e"
  using drain_reading [of cfg "t_inbound e" st st']
  by (auto simp add: server_phase_def readings_def split: if_splits)

lemma keepalive_phase_reading:
  "snd (keepalive_phase cfg e fd st) = Next st' \<Longrightarrow>
     keepaliveTime st' = keepaliveTime st \<or> keepaliveTime st' = t_now_set e + interval cfg"
  by (auto simp add: keepalive_phase_def snd_and_then snd_call split: if_splits option.splits)

lemma tick_reading:
  assumes "snd (tick cfg e st) = Again st'"
  shows "keepaliveTime st' = keepaliveTime st \<or> keepaliveTime st' - interval cfg \<in> readings e"
proof -
  from tick_AgainD [OF assms] obtain fd where
    b: "snd (try_body cfg e fd (watched cfg fd \<inter> t_readable e) st) = Next st'"
    by blast
  let ?rfd = "watched cfg fd \<inter> t_readable e"
  from try_body_NextD [OF b] obtain st1 st2 st3 where
    i: "snd (input_phase cfg e ?rfd st) = Next st1" and
    s: "snd (server_phase cfg e fd ?rfd st1) = Next st2" and
    k: "snd (keepalive_phase cfg e fd st2) = Next st3" and
    g: "snd (geometry_phase e (if fd < 0 then st3\<lparr>waitingOnKeepalive := False\<rparr> else st3))
          = Next st'"
    by blast
  have "keepaliveTime st' = keepaliveTime st3"
    using geometry_phase_state [OF g] by simp
  moreover have "t_now_input e \<in> readings e" "t_now_set e \<in> readings e"
    by (simp_all add: readings_def)
  ultimately show ?thesis
    using input_phase_reading [OF i] server_phase_reading [OF s] keepalive_phase_reading [OF k]
    by auto
qed

lemma main_loop_reading:
  "snd (main_loop cfg es st) = Running st' \<Longrightarrow>
     keepaliveTime st' = keepaliveTime st \<or>
     keepaliveTime st' - interval cfg \<in> (\<Union>e\<in>set es. readings e)"
proof (induction es arbitrary: st)
  case Nil
  then show ?case by simp
next
  case (Cons e es)
  from Cons.prems obtain s1 where a: "snd (tick cfg e st) = Again s1"
    and r: "snd (main_loop cfg es s1) = Running st'"
    by (auto split: tick_result.splits)
  from tick_reading [OF a] Cons.IH [OF r] show ?case
    by auto
qed

lemma run_deadlines:
  assumes "interval cfg = 5" and "snd (main_loop cfg es (initial_state now0 5)) = Running st'"
  shows "keepaliveTime st' - 5 \<in> insert now0 (\<Union>e\<in>set es. readings e)"
  using main_loop_reading [OF assms(2)] assms(1)
  by (auto simp add: initial_state_def)

text \<open>
  Claim C9, entry validation. When any of the input stream, the output stream, the
  window-size pointer, the host, the id or the passkey is null, \<open>et_client_main\<close> returns
  1 with an empty trace: nothing has been called. For a keepalive interval below 1 the
  interval used is 5 (an interval of 1 or more is used as it is), and the whole run is the
  run with the argument 5: after a successful handshake the run is the session with the
  interval 5, and in a session with the interval 5 every place that reads the interval
  uses 5: the first deadline is the clock reading of line 112 plus 5, and the deadlines
  set after local input (line 149), after terminal data (line 173) and by the keepalive
  (line 188) are the clock reading there plus 5; so the deadline after any number of
  ticks of the session is one of the clock readings of the run plus 5.
\<close>

theorem entry_validation:
  "(f_in a = None \<or> f_out a = None \<or> ws a = None \<or> host a = None \<or> ident a = None \<or>
      passkey a = None \<longrightarrow> et_client_main a w = ([], Some 1)) \<and>
   (keepalive_secs a < 1 \<longrightarrow>
      clamp_keepalive (keepalive_secs a) = 5 \<and>
      et_client_main a w = et_client_main (a\<lparr>keepalive_secs := 5\<rparr>) w) \<and>
   (1 \<le> keepalive_secs a \<longrightarrow> clamp_keepalive (keepalive_secs a) = keepalive_secs a) \<and>
   (keepalive_secs a < 1 \<and> valid_args a \<and> w_construct w = None \<and>
    snd (connect_loop (w_attempts w) 0) = Connected \<longrightarrow>
      et_client_main a w =
        (AddLoggerFlag # fst (connect_loop (w_attempts w) 0) @
           fst (session \<lparr>inFd = the (f_in a), outFd = the (f_out a), interval = 5\<rparr> w),
         snd (session \<lparr>inFd = the (f_in a), outFd = the (f_out a), interval = 5\<rparr> w))) \<and>
   (interval cfg = 5 \<longrightarrow>
      session cfg w =
        (case snd (main_loop cfg (w_ticks w) (initial_state (w_now_start w) 5)) of
           Running st \<Rightarrow>
             (fst (main_loop cfg (w_ticks w) (initial_state (w_now_start w) 5)), None)
         | Escaped x \<Rightarrow>
             (fst (main_loop cfg (w_ticks w) (initial_state (w_now_start w) 5)), Some 1)
         | LoopLeft \<Rightarrow>
             (fst (main_loop cfg (w_ticks w) (initial_state (w_now_start w) 5)) @ [Shutdown],
              case w_shutdown w of Some x \<Rightarrow> Some 1 | None \<Rightarrow> Some 0)) \<and>
      keepaliveTime (initial_state (w_now_start w) 5) = w_now_start w + 5 \<and>
      (inFd cfg \<in> rfd \<and> snd (input_phase cfg e rfd st) = Next st' \<longrightarrow>
         keepaliveTime st' = t_now_input e + 5) \<and>
      (in_header p = TERMINAL_BUFFER \<and> snd (dispatch cfg p st) = Next st' \<longrightarrow>
         keepaliveTime st' = in_now p + 5) \<and>
      (0 < fd \<and> keepaliveTime st < t_now_check e \<and>
       snd (keepalive_phase cfg e fd st) = Next st' \<longrightarrow>
         keepaliveTime st' = t_now_set e + 5) \<and>
      (snd (main_loop cfg es (initial_state now0 5)) = Running st'' \<longrightarrow>
         keepaliveTime st'' - 5 \<in> insert now0 (\<Union>e\<in>set es. readings e)))"
proof (intro conjI impI)
  assume "f_in a = None \<or> f_out a = None \<or> ws a = None \<or> host a = None \<or> ident a = None \<or>
      passkey a = None"
  then show "et_client_main a w = ([], Some 1)"
    by (auto simp add: et_client_main_def)
next
  assume "keepalive_secs a < 1"
  then show "clamp_keepalive (keepalive_secs a) = 5"
    by (simp add: clamp_keepalive_def)
next
  assume "keepalive_secs a < 1"
  then show "et_client_main a w = et_client_main (a\<lparr>keepalive_secs := 5\<rparr>) w"
    by (auto simp add: et_client_main_def clamp_keepalive_def
        split: option.splits connect_result.splits)
next
  assume "1 \<le> keepalive_secs a"
  then show "clamp_keepalive (keepalive_secs a) = keepalive_secs a"
    by (simp add: clamp_keepalive_def)
next
  assume h: "keepalive_secs a < 1 \<and> valid_args a \<and> w_construct w = None \<and>
    snd (connect_loop (w_attempts w) 0) = Connected"
  then have "clamp_keepalive (keepalive_secs a) = 5"
    by (simp add: clamp_keepalive_def)
  with h main_session [of a w]
  show "et_client_main a w =
        (AddLoggerFlag # fst (connect_loop (w_attempts w) 0) @
           fst (session \<lparr>inFd = the (f_in a), outFd = the (f_out a), interval = 5\<rparr> w),
         snd (session \<lparr>inFd = the (f_in a), outFd = the (f_out a), interval = 5\<rparr> w))"
    by simp
next
  assume i: "interval cfg = 5"
  show "session cfg w =
        (case snd (main_loop cfg (w_ticks w) (initial_state (w_now_start w) 5)) of
           Running st \<Rightarrow>
             (fst (main_loop cfg (w_ticks w) (initial_state (w_now_start w) 5)), None)
         | Escaped x \<Rightarrow>
             (fst (main_loop cfg (w_ticks w) (initial_state (w_now_start w) 5)), Some 1)
         | LoopLeft \<Rightarrow>
             (fst (main_loop cfg (w_ticks w) (initial_state (w_now_start w) 5)) @ [Shutdown],
              case w_shutdown w of Some x \<Rightarrow> Some 1 | None \<Rightarrow> Some 0))"
    by (simp add: session_unfold i split: loop_result.splits)
  show "keepaliveTime (initial_state (w_now_start w) 5) = w_now_start w + 5"
    by (simp add: initial_state_def)
  {
    assume "inFd cfg \<in> rfd \<and> snd (input_phase cfg e rfd st) = Next st'"
    then show "keepaliveTime st' = t_now_input e + 5"
      using input_phase_deadline [of cfg rfd e st st'] i by simp
  }
  {
    assume "in_header p = TERMINAL_BUFFER \<and> snd (dispatch cfg p st) = Next st'"
    then show "keepaliveTime st' = in_now p + 5"
      using dispatch_deadline [of p cfg st st'] i by simp
  }
  {
    assume "0 < fd \<and> keepaliveTime st < t_now_check e \<and>
       snd (keepalive_phase cfg e fd st) = Next st'"
    then show "keepaliveTime st' = t_now_set e + 5"
      using keepalive_phase_deadline [of fd st e cfg st'] i by simp
  }
  {
    assume "snd (main_loop cfg es (initial_state now0 5)) = Running st''"
    then show "keepaliveTime st'' - 5 \<in> insert now0 (\<Union>e\<in>set es. readings e)"
      using run_deadlines [OF i] by blast
  }
qed

text \<open>
  A null host; and the interval 0 in a run that connects at 100 and ticks at 103 and at
  106: the first deadline is 105, so the only probe is sent on the second tick.
\<close>

lemma tick_103_eval:
  "tick example_cfg (tick_at 103) example_state =
     ([IsShuttingDown, GetSocketFd, Select {3, 7} 10000], Again example_state)"
  by (simp add: tick_at_def idle_tick_def example_cfg_def example_state_def
      initial_state_def tick_def try_body_def input_phase_def server_phase_def
      keepalive_phase_def invalid_fd_phase_def geometry_phase_def observe_def watched_def
      zero_winsize_def default_TerminalInfo_def)

lemma tick_106_eval:
  "tick example_cfg (tick_at 106) example_state =
     ([IsShuttingDown, GetSocketFd, Select {3, 7} 10000,
       WritePacket (Packet KEEP_ALIVE EmptyString)],
      Again (example_state\<lparr>keepaliveTime := 111, waitingOnKeepalive := True\<rparr>))"
  by (simp add: tick_at_def idle_tick_def example_cfg_def example_state_def
      initial_state_def tick_def try_body_def input_phase_def server_phase_def
      keepalive_phase_def invalid_fd_phase_def geometry_phase_def observe_def watched_def
      zero_winsize_def default_TerminalInfo_def call_def)

lemma main_loop_103_106:
  "main_loop example_cfg [tick_at 103, tick_at 106] example_state =
     ([IsShuttingDown, GetSocketFd, Select {3, 7} 10000,
       IsShuttingDown, GetSocketFd, Select {3, 7} 10000,
       WritePacket (Packet KEEP_ALIVE EmptyString)],
      Running (example_state\<lparr>keepaliveTime := 111, waitingOnKeepalive := True\<rparr>))"
  by (simp add: tick_103_eval tick_106_eval)

lemma input_phase_typed_eval:
  "snd (input_phase example_cfg (typing_tick\<lparr>t_now_input := 103\<rparr>) {3} example_state) =
     Next (example_state\<lparr>keepaliveTime := 108\<rparr>)"
  by (simp add: typing_tick_def idle_tick_def example_cfg_def input_phase_def call_def)

lemma dispatch_hello_eval:
  "snd (dispatch example_cfg (hello_packet (\<lambda>j. 5)) example_state) =
     Next (example_state\<lparr>keepaliveTime := 106\<rparr>)"
  by (simp add: hello_packet_def example_cfg_def dispatch_def)

lemma keepalive_phase_106_eval:
  "snd (keepalive_phase example_cfg (tick_at 106) 7 example_state) =
     Next (example_state\<lparr>keepaliveTime := 111, waitingOnKeepalive := True\<rparr>)"
  by (simp add: tick_at_def idle_tick_def example_cfg_def example_state_def initial_state_def
      keepalive_phase_def call_def)

theorem entry_validation_witness:
  "et_client_main (example_args\<lparr>host := None\<rparr>)
       (world_of (\<lambda>n. good_attempt) [tick_at 103, tick_at 106]) = ([], Some 1) \<and>
   keepalive_secs example_args < 1 \<and>
   clamp_keepalive (keepalive_secs example_args) = 5 \<and>
   et_client_main example_args (world_of (\<lambda>n. good_attempt) [tick_at 103, tick_at 106]) =
     et_client_main (example_args\<lparr>keepalive_secs := 5\<rparr>)
       (world_of (\<lambda>n. good_attempt) [tick_at 103, tick_at 106]) \<and>
   et_client_main example_args (world_of (\<lambda>n. good_attempt) [tick_at 103, tick_at 106]) =
     ([AddLoggerFlag, Connect, WritePacket (Packet INITIAL_PAYLOAD (InitialPayload False)),
       GetSocketFd, Select {7} 1000000, GetSocketFd, Select {7} 1000000, ReadPacket,
       IsShuttingDown, GetSocketFd, Select {3, 7} 10000,
       IsShuttingDown, GetSocketFd, Select {3, 7} 10000,
       WritePacket (Packet KEEP_ALIVE EmptyString)], None) \<and>
   keepaliveTime (initial_state 100 5) = 105 \<and>
   keepaliveTime (example_state\<lparr>keepaliveTime := 108\<rparr>) =
     t_now_input (typing_tick\<lparr>t_now_input := 103\<rparr>) + 5 \<and>
   keepaliveTime (example_state\<lparr>keepaliveTime := 106\<rparr>) = in_now (hello_packet (\<lambda>j. 5)) + 5 \<and>
   keepaliveTime (example_state\<lparr>keepaliveTime := 111, waitingOnKeepalive := True\<rparr>) =
     t_now_set (tick_at 106) + 5 \<and>
   keepaliveTime (example_state\<lparr>keepaliveTime := 111, waitingOnKeepalive := True\<rparr>) - 5
     \<in> insert 100 (\<Union>e\<in>set [tick_at 103, tick_at 106]. readings e)"
proof -
  let ?w = "world_of (\<lambda>n. good_attempt) [tick_at 103, tick_at 106]"
  have n: "f_in (example_args\<lparr>host := None\<rparr>) = None \<or> f_out (example_args\<lparr>host := None\<rparr>) = None \<or>
      ws (example_args\<lparr>host := None\<rparr>) = None \<or> host (example_args\<lparr>host := None\<rparr>) = None \<or>
      ident (example_args\<lparr>host := None\<rparr>) = None \<or> passkey (example_args\<lparr>host := None\<rparr>) = None"
    by simp
  have a: "et_client_main (example_args\<lparr>host := None\<rparr>) ?w = ([], Some 1)"
    using entry_validation [where a = "example_args\<lparr>host := None\<rparr>" and w = ?w,
        THEN conjunct1, rule_format, OF n] .
  have k: "keepalive_secs example_args < 1"
    by (simp add: example_args_def)
  have b: "clamp_keepalive (keepalive_secs example_args) = 5 \<and>
      et_client_main example_args ?w = et_client_main (example_args\<lparr>keepalive_secs := 5\<rparr>) ?w"
    using entry_validation [where a = example_args and w = ?w,
        THEN conjunct2, THEN conjunct1, rule_format, OF k] .
  note t = entry_validation [where a = example_args and w = ?w and cfg = example_cfg,
      THEN conjunct2, THEN conjunct2, THEN conjunct2]
  have h: "keepalive_secs example_args < 1 \<and> valid_args example_args \<and>
      w_construct ?w = None \<and> snd (connect_loop (w_attempts ?w) 0) = Connected"
    by (simp add: k example_args_valid world_of_fields good_connect)
  have i: "interval example_cfg = 5"
    by (simp add: example_cfg_fields)
  have cfg5: "\<lparr>inFd = the (f_in example_args), outFd = the (f_out example_args),
      interval = 5\<rparr> = example_cfg"
    by (simp add: example_args_def example_cfg_def)
  have s: "session example_cfg ?w =
     ([IsShuttingDown, GetSocketFd, Select {3, 7} 10000,
       IsShuttingDown, GetSocketFd, Select {3, 7} 10000,
       WritePacket (Packet KEEP_ALIVE EmptyString)], None)"
    using t [THEN conjunct2, rule_format, OF i, THEN conjunct1]
    by (simp add: world_of_fields initial_example_state main_loop_103_106
        del: main_loop.simps)
  have c: "et_client_main example_args ?w =
     ([AddLoggerFlag, Connect, WritePacket (Packet INITIAL_PAYLOAD (InitialPayload False)),
       GetSocketFd, Select {7} 1000000, GetSocketFd, Select {7} 1000000, ReadPacket,
       IsShuttingDown, GetSocketFd, Select {3, 7} 10000,
       IsShuttingDown, GetSocketFd, Select {3, 7} 10000,
       WritePacket (Packet KEEP_ALIVE EmptyString)], None)"
    using t [THEN conjunct1, rule_format, OF h]
    by (simp add: cfg5 s world_of_fields good_connect)
  have d0: "keepaliveTime (initial_state 100 5) = 105"
    using t [THEN conjunct2, rule_format, OF i, THEN conjunct2, THEN conjunct1]
    by (simp add: world_of_fields)
  have h1: "inFd example_cfg \<in> {3} \<and>
      snd (input_phase example_cfg (typing_tick\<lparr>t_now_input := 103\<rparr>) {3} example_state) =
        Next (example_state\<lparr>keepaliveTime := 108\<rparr>)"
    by (simp add: example_cfg_fields input_phase_typed_eval)
  have d1: "keepaliveTime (example_state\<lparr>keepaliveTime := 108\<rparr>) =
      t_now_input (typing_tick\<lparr>t_now_input := 103\<rparr>) + 5"
    using entry_validation [where a = example_args and w = ?w and cfg = example_cfg
          and rfd = "{3}" and e = "typing_tick\<lparr>t_now_input := 103\<rparr>"
          and st = example_state and st' = "example_state\<lparr>keepaliveTime := 108\<rparr>",
        THEN conjunct2, THEN conjunct2, THEN conjunct2, THEN conjunct2, rule_format, OF i,
        THEN conjunct2, THEN conjunct2, THEN conjunct1,
        rule_format, OF h1] .
  have h2: "in_header (hello_packet (\<lambda>j. 5)) = TERMINAL_BUFFER \<and>
      snd (dispatch example_cfg (hello_packet (\<lambda>j. 5)) example_state) =
        Next (example_state\<lparr>keepaliveTime := 106\<rparr>)"
    by (simp add: dispatch_hello_eval) (simp add: hello_packet_def)
  have d2: "keepaliveTime (example_state\<lparr>keepaliveTime := 106\<rparr>) =
      in_now (hello_packet (\<lambda>j. 5)) + 5"
    using entry_validation [where a = example_args and w = ?w and cfg = example_cfg
          and p = "hello_packet (\<lambda>j. 5)" and st = example_state
          and st' = "example_state\<lparr>keepaliveTime := 106\<rparr>",
        THEN conjunct2, THEN conjunct2, THEN conjunct2, THEN conjunct2, rule_format, OF i,
        THEN conjunct2, THEN conjunct2, THEN conjunct2,
        THEN conjunct1, rule_format, OF h2] .
  have h3: "(0::int) < 7 \<and> keepaliveTime example_state < t_now_check (tick_at 106) \<and>
      snd (keepalive_phase example_cfg (tick_at 106) 7 example_state) =
        Next (example_state\<lparr>keepaliveTime := 111, waitingOnKeepalive := True\<rparr>)"
    by (simp add: keepalive_phase_106_eval example_state_fields tick_at_fields)
  have d3: "keepaliveTime (example_state\<lparr>keepaliveTime := 111, waitingOnKeepalive := True\<rparr>) =
      t_now_set (tick_at 106) + 5"
    using entry_validation [where a = example_args and w = ?w and cfg = example_cfg
          and fd = 7 and e = "tick_at 106" and st = example_state
          and st' = "example_state\<lparr>keepaliveTime := 111, waitingOnKeepalive := True\<rparr>",
        THEN conjunct2, THEN conjunct2, THEN conjunct2, THEN conjunct2, rule_format, OF i,
        THEN conjunct2, THEN conjunct2, THEN conjunct2, THEN conjunct2, THEN conjunct1,
        rule_format, OF h3] .
  have h4: "snd (main_loop example_cfg [tick_at 103, tick_at 106] (initial_state 100 5)) =
      Running (example_state\<lparr>keepaliveTime := 111, waitingOnKeepalive := True\<rparr>)"
    by (simp add: initial_example_state main_loop_103_106 del: main_loop.simps)
  have d4: "keepaliveTime (example_state\<lparr>keepaliveTime := 111, waitingOnKeepalive := True\<rparr>)
      - 5 \<in> insert 100 (\<Union>e\<in>set [tick_at 103, tick_at 106]. readings e)"
    using entry_validation [where a = example_args and w = ?w and cfg = example_cfg
          and es = "[tick_at 103, tick_at 106]" and ?now0.0 = 100
          and st'' = "example_state\<lparr>keepaliveTime := 111, waitingOnKeepalive := True\<rparr>",
        THEN conjunct2, THEN conjunct2, THEN conjunct2, THEN conjunct2, rule_format, OF i,
        THEN conjunct2, THEN conjunct2, THEN conjunct2, THEN conjunct2, THEN conjunct2,
        rule_format, OF h4] .
  from a k b c d0 d1 d2 d3 d4 show ?thesis by blast
qed

end
